theory Spec2Isabelle
  imports Complex_Main "HOL-Library.Word"
begin

unbundle bit_operations_syntax

section \<open>JavaScript numbers\<close>

text \<open>
  A TypeScript \<open>number\<close> on which the code computes or compares is modelled as a real (the
  value of a finite double) or one of the three special values. The sign of a zero is not
  modelled. The comparison operators follow ECMAScript: every comparison with \<open>NaN\<close> is
  false. The arithmetic of the linear scale rounds every result to binary64 (below);
  the sizes, counts and band positions computed elsewhere are taken exactly.
\<close>

datatype number = Finite real | PosInfinity | NegInfinity | NaN

fun isFinite :: "number \<Rightarrow> bool" where
  "isFinite (Finite r) = True"
| "isFinite PosInfinity = False"
| "isFinite NegInfinity = False"
| "isFinite NaN = False"

text \<open>\<open>a < b\<close>\<close>

fun js_lt :: "number \<Rightarrow> number \<Rightarrow> bool" where
  "js_lt (Finite a) (Finite b) = (a < b)"
| "js_lt (Finite a) PosInfinity = True"
| "js_lt NegInfinity (Finite b) = True"
| "js_lt NegInfinity PosInfinity = True"
| "js_lt a b = False"

text \<open>\<open>a > b\<close>, \<open>a <= b\<close>, \<open>a >= b\<close> and \<open>a === b\<close>\<close>

definition js_gt :: "number \<Rightarrow> number \<Rightarrow> bool" where
  "js_gt a b = js_lt b a"

definition js_le :: "number \<Rightarrow> number \<Rightarrow> bool" where
  "js_le a b = (a \<noteq> NaN \<and> b \<noteq> NaN \<and> \<not> js_lt b a)"

definition js_ge :: "number \<Rightarrow> number \<Rightarrow> bool" where
  "js_ge a b = js_le b a"

definition js_eq :: "number \<Rightarrow> number \<Rightarrow> bool" where
  "js_eq a b = (a \<noteq> NaN \<and> b \<noteq> NaN \<and> a = b)"

text \<open>\<open>Number.isInteger\<close>\<close>

fun isInteger :: "number \<Rightarrow> bool" where
  "isInteger (Finite r) = (of_int \<lfloor>r\<rfloor> = r)"
| "isInteger PosInfinity = False"
| "isInteger NegInfinity = False"
| "isInteger NaN = False"

section \<open>Binary64 arithmetic\<close>

text \<open>
  The operators \<open>+\<close>, \<open>-\<close>, \<open>*\<close> and \<open>/\<close> of the language work on IEEE 754 binary64
  values: the exact result is rounded to the nearest double, ties to the even
  significand, and a result that rounds to \<open>2^1024\<close> or beyond in magnitude is an infinity.

  \<open>round_half_even\<close> rounds a real to the nearest integer, ties to even. \<open>binary64\<close> rounds
  a real to a double: the exponent \<open>e\<close> of \<open>x\<close> is that of its binade, and at least
  \<open>-1022\<close> (below, the doubles are subnormal and equally spaced); the doubles of that binade
  are the multiples of \<open>2^(e - 52)\<close>.
\<close>

definition round_half_even :: "real \<Rightarrow> int" where
  "round_half_even x =
     (let f = \<lfloor>x\<rfloor>; d = x - of_int f in
      if d < 1 / 2 then f else if 1 / 2 < d then f + 1 else if even f then f else f + 1)"

definition binary64 :: "real \<Rightarrow> number" where
  "binary64 x =
     (if x = 0 then Finite 0
      else let e = max (- 1022) \<lfloor>log 2 \<bar>x\<bar>\<rfloor>;
               ulp = 2 powi (e - 52);
               y = of_int (round_half_even (x / ulp)) * ulp
           in if 2 ^ 1024 \<le> \<bar>y\<bar> then (if 0 < x then PosInfinity else NegInfinity) else Finite y)"

text \<open>A real is representable when it is a double: rounding leaves it as it is.\<close>

definition representable :: "real \<Rightarrow> bool" where
  "representable x \<longleftrightarrow> binary64 x = Finite x"

text \<open>\<open>a + b\<close>, \<open>a - b\<close>, \<open>a * b\<close> and \<open>a / b\<close> on doubles. A zero divisor is taken as \<open>+0\<close>.\<close>

fun js_plus :: "number \<Rightarrow> number \<Rightarrow> number" where
  "js_plus (Finite a) (Finite b) = binary64 (a + b)"
| "js_plus NaN b = NaN"
| "js_plus a NaN = NaN"
| "js_plus PosInfinity NegInfinity = NaN"
| "js_plus NegInfinity PosInfinity = NaN"
| "js_plus PosInfinity b = PosInfinity"
| "js_plus NegInfinity b = NegInfinity"
| "js_plus (Finite a) PosInfinity = PosInfinity"
| "js_plus (Finite a) NegInfinity = NegInfinity"

fun js_minus :: "number \<Rightarrow> number \<Rightarrow> number" where
  "js_minus (Finite a) (Finite b) = binary64 (a - b)"
| "js_minus NaN b = NaN"
| "js_minus a NaN = NaN"
| "js_minus PosInfinity PosInfinity = NaN"
| "js_minus NegInfinity NegInfinity = NaN"
| "js_minus PosInfinity b = PosInfinity"
| "js_minus NegInfinity b = NegInfinity"
| "js_minus (Finite a) PosInfinity = NegInfinity"
| "js_minus (Finite a) NegInfinity = PosInfinity"

fun js_mult :: "number \<Rightarrow> number \<Rightarrow> number" where
  "js_mult (Finite a) (Finite b) = binary64 (a * b)"
| "js_mult NaN b = NaN"
| "js_mult a NaN = NaN"
| "js_mult (Finite a) PosInfinity = (if a = 0 then NaN else if 0 < a then PosInfinity else NegInfinity)"
| "js_mult (Finite a) NegInfinity = (if a = 0 then NaN else if 0 < a then NegInfinity else PosInfinity)"
| "js_mult PosInfinity (Finite b) = (if b = 0 then NaN else if 0 < b then PosInfinity else NegInfinity)"
| "js_mult NegInfinity (Finite b) = (if b = 0 then NaN else if 0 < b then NegInfinity else PosInfinity)"
| "js_mult PosInfinity PosInfinity = PosInfinity"
| "js_mult PosInfinity NegInfinity = NegInfinity"
| "js_mult NegInfinity PosInfinity = NegInfinity"
| "js_mult NegInfinity NegInfinity = PosInfinity"

fun js_divide :: "number \<Rightarrow> number \<Rightarrow> number" where
  "js_divide (Finite a) (Finite b) =
     (if b = 0 then (if a = 0 then NaN else if 0 < a then PosInfinity else NegInfinity)
      else binary64 (a / b))"
| "js_divide NaN b = NaN"
| "js_divide a NaN = NaN"
| "js_divide (Finite a) PosInfinity = Finite 0"
| "js_divide (Finite a) NegInfinity = Finite 0"
| "js_divide PosInfinity (Finite b) = (if 0 \<le> b then PosInfinity else NegInfinity)"
| "js_divide NegInfinity (Finite b) = (if 0 \<le> b then NegInfinity else PosInfinity)"
| "js_divide PosInfinity b = NaN"
| "js_divide NegInfinity b = NaN"

section \<open>Scales (src/config/types.ts, second part)\<close>

datatype ScaleError = MustBeFinite string number | DuplicateCategory string

text \<open>
  \<open>assertFinite\<close> throws unless the value is finite. The model hands the finite value
  back as a real, so that the closure variables of a scale, which are only ever assigned
  behind \<open>assertFinite\<close> (and start at 0 and 1), are reals.
\<close>

fun assertFinite :: "string \<Rightarrow> number \<Rightarrow> ScaleError + real" where
  "assertFinite label (Finite r) = Inr r"
| "assertFinite label v = Inl (MustBeFinite label v)"

record LinearScale =
  domainMin :: real
  domainMax :: real
  rangeMin :: real
  rangeMax :: real

definition createLinearScale :: LinearScale where
  "createLinearScale = \<lparr>domainMin = 0, domainMax = 1, rangeMin = 0, rangeMax = 1\<rparr>"

definition linear_domain :: "number \<Rightarrow> number \<Rightarrow> LinearScale \<Rightarrow> ScaleError + LinearScale" where
  "linear_domain mn mx s =
     (case assertFinite ''domain min'' mn of Inl e \<Rightarrow> Inl e | Inr a \<Rightarrow>
      case assertFinite ''domain max'' mx of Inl e \<Rightarrow> Inl e | Inr b \<Rightarrow>
      Inr (s\<lparr>domainMin := a, domainMax := b\<rparr>))"

definition linear_range :: "number \<Rightarrow> number \<Rightarrow> LinearScale \<Rightarrow> ScaleError + LinearScale" where
  "linear_range mn mx s =
     (case assertFinite ''range min'' mn of Inl e \<Rightarrow> Inl e | Inr a \<Rightarrow>
      case assertFinite ''range max'' mx of Inl e \<Rightarrow> Inl e | Inr b \<Rightarrow>
      Inr (s\<lparr>rangeMin := a, rangeMax := b\<rparr>))"

text \<open>
  \<open>scale\<close> and \<open>invert\<close>: each operator of the source is the binary64 operation, in the
  order in which the expression is evaluated.
\<close>

fun linear_scale :: "LinearScale \<Rightarrow> number \<Rightarrow> number" where
  "linear_scale s (Finite v) =
     (if domainMin s = domainMax s then
        js_divide (js_plus (Finite (rangeMin s)) (Finite (rangeMax s))) (Finite 2)
      else let t = js_divide (js_minus (Finite v) (Finite (domainMin s)))
                             (js_minus (Finite (domainMax s)) (Finite (domainMin s)))
           in js_plus (Finite (rangeMin s))
                (js_mult t (js_minus (Finite (rangeMax s)) (Finite (rangeMin s)))))"
| "linear_scale s v = NaN"

fun linear_invert :: "LinearScale \<Rightarrow> number \<Rightarrow> number" where
  "linear_invert s (Finite p) =
     (if domainMin s = domainMax s then Finite (domainMin s)
      else if rangeMin s = rangeMax s then
        js_divide (js_plus (Finite (domainMin s)) (Finite (domainMax s))) (Finite 2)
      else let t = js_divide (js_minus (Finite p) (Finite (rangeMin s)))
                             (js_minus (Finite (rangeMax s)) (Finite (rangeMin s)))
           in js_plus (Finite (domainMin s))
                (js_mult t (js_minus (Finite (domainMax s)) (Finite (domainMin s)))))"
| "linear_invert s p = NaN"

record CategoryScale =
  categories :: "string list"
  indexByCategory :: "string \<rightharpoonup> nat"
  crangeMin :: real
  crangeMax :: real






definition category_range :: "number \<Rightarrow> number \<Rightarrow> CategoryScale \<Rightarrow> ScaleError + CategoryScale" where
  "category_range mn mx s =
     (case assertFinite ''range min'' mn of Inl e \<Rightarrow> Inl e | Inr a \<Rightarrow>
      case assertFinite ''range max'' mx of Inl e \<Rightarrow> Inl e | Inr b \<Rightarrow>
      Inr (s\<lparr>crangeMin := a, crangeMax := b\<rparr>))"




section \<open>Binary point data (src/worker/ChartGPUWorkerController.ts)\<close>

text \<open>
  The coordinates of a data point are only moved, never computed on, so a coordinate is
  the 64 bits of its IEEE 754 double. An \<open>ArrayBuffer\<close> is its bytes; a \<open>Float64Array\<close>
  over it reads and writes eight bytes per lane, least significant byte first.
\<close>

type_synonym f64 = "64 word"
type_synonym ArrayBuffer = "8 word list"

definition f64_NaN :: f64 where
  "f64_NaN = 0x7FF8000000000000"

definition f64_to_bytes :: "f64 \<Rightarrow> 8 word list" where
  "f64_to_bytes w =
     [ucast w, ucast (drop_bit 8 w), ucast (drop_bit 16 w), ucast (drop_bit 24 w),
      ucast (drop_bit 32 w), ucast (drop_bit 40 w), ucast (drop_bit 48 w), ucast (drop_bit 56 w)]"

fun bytes_to_f64 :: "8 word list \<Rightarrow> f64" where
  "bytes_to_f64 [b0, b1, b2, b3, b4, b5, b6, b7] =
     ucast b0 OR push_bit 8 (ucast b1) OR push_bit 16 (ucast b2) OR push_bit 24 (ucast b3) OR
     push_bit 32 (ucast b4) OR push_bit 40 (ucast b5) OR push_bit 48 (ucast b6) OR
     push_bit 56 (ucast b7)"
| "bytes_to_f64 bs = 0"

text \<open>The lanes of a buffer whose length is a multiple of 8, and the bytes of lanes.\<close>

fun lanes_of_bytes :: "8 word list \<Rightarrow> f64 list" where
  "lanes_of_bytes (b0 # b1 # b2 # b3 # b4 # b5 # b6 # b7 # bs) =
     bytes_to_f64 [b0, b1, b2, b3, b4, b5, b6, b7] # lanes_of_bytes bs"
| "lanes_of_bytes bs = []"

definition bytes_of_lanes :: "f64 list \<Rightarrow> ArrayBuffer" where
  "bytes_of_lanes view = concat (map f64_to_bytes view)"

text \<open>What the worker-side code throws.\<close>

datatype WorkerException =
    InvalidSeriesIndex string number
  | InvalidPointCount string number
  | ChartNotFound string string
  | ChartIsDisposed string string
  | ChartDeviceIsLost string string
  | BufferSizeMismatch number number number nat
  | InvalidStride number
  | RangeError_Float64Array nat
  | RangeError_InvalidArrayLength number
  | InvalidZoomRangeBounds number number
  | InvalidZoomRangeOrder number number
  | CannotResizeDeviceLost
  | InvalidDimensions number number
  | InvalidDevicePixelRatio number
  | CanvasDimensionsZero
  | DeviceNotAvailable
  | CanvasContextNotAvailable
  | PreferredFormatNotAvailable
  | ReconfigureFailed
  | InvalidSeriesIndexForChart nat

text \<open>\<open>new Float64Array (buffer)\<close> throws a RangeError unless the byte length is a multiple of 8.\<close>

definition new_Float64Array :: "ArrayBuffer \<Rightarrow> WorkerException + f64 list" where
  "new_Float64Array buffer =
     (if length buffer mod 8 = 0 then Inr (lanes_of_bytes buffer)
      else Inl (RangeError_Float64Array (length buffer)))"

text \<open>\<open>view[i]\<close>: \<open>undefined\<close> (here \<open>None\<close>) out of range.\<close>

definition view_get :: "f64 list \<Rightarrow> nat \<Rightarrow> f64 option" where
  "view_get view i = (if i < length view then Some (view ! i) else None)"

text \<open>
  \<open>view[i] = v\<close>: a write out of range is ignored, and \<open>undefined\<close> is stored as \<open>NaN\<close>.
\<close>

definition to_f64 :: "f64 option \<Rightarrow> f64" where
  "to_f64 v = (case v of None \<Rightarrow> f64_NaN | Some x \<Rightarrow> x)"

definition view_set :: "f64 list \<Rightarrow> nat \<Rightarrow> f64 option \<Rightarrow> f64 list" where
  "view_set view i v = (if i < length view then view[i := to_f64 v] else view)"

text \<open>
  A point as it exists at run time: a tuple (an array of numbers, \<open>undefined\<close> where an
  index has no number), an \<open>{x, y}\<close> object, an OHLC object with its fields in the order
  timestamp, open, close, low, high, or the hole of a freshly allocated array slot.
\<close>

datatype Point =
    Hole
  | Tuple "f64 option list"
  | XYObject f64 f64
  | OHLCObject f64 f64 f64 f64 f64

text \<open>\<open>p[k]\<close> on a tuple.\<close>

definition tuple_get :: "f64 option list \<Rightarrow> nat \<Rightarrow> f64 option" where
  "tuple_get p k = (if k < length p then p ! k else None)"

text \<open>
  \<open>new Array (n)\<close> throws a RangeError unless \<open>n\<close> is a non-negative integer. (The engine's
  upper limit of \<open>2^32 - 1\<close> elements is left out: no buffer is large enough to reach it.)
\<close>

definition new_Array :: "number \<Rightarrow> WorkerException + Point list" where
  "new_Array n =
     (case n of
        Finite r \<Rightarrow> if isInteger (Finite r) \<and> 0 \<le> r then Inr (replicate (nat \<lfloor>r\<rfloor>) Hole)
                    else Inl (RangeError_InvalidArrayLength n)
      | _ \<Rightarrow> Inl (RangeError_InvalidArrayLength n))"

text \<open>\<open>points[i] = v\<close>: an array grows, with holes, when written past its end.\<close>

definition array_set :: "Point list \<Rightarrow> nat \<Rightarrow> Point \<Rightarrow> Point list" where
  "array_set points i v =
     (if i < length points then points[i := v]
      else points @ replicate (i - length points) Hole @ [v])"

text \<open>\<open>a * b\<close>\<close>

fun js_times :: "number \<Rightarrow> number \<Rightarrow> number" where
  "js_times (Finite a) (Finite b) = Finite (a * b)"
| "js_times NaN b = NaN"
| "js_times a NaN = NaN"
| "js_times (Finite a) PosInfinity = (if a = 0 then NaN else if 0 < a then PosInfinity else NegInfinity)"
| "js_times (Finite a) NegInfinity = (if a = 0 then NaN else if 0 < a then NegInfinity else PosInfinity)"
| "js_times PosInfinity (Finite b) = (if b = 0 then NaN else if 0 < b then PosInfinity else NegInfinity)"
| "js_times NegInfinity (Finite b) = (if b = 0 then NaN else if 0 < b then NegInfinity else PosInfinity)"
| "js_times PosInfinity PosInfinity = PosInfinity"
| "js_times PosInfinity NegInfinity = NegInfinity"
| "js_times NegInfinity PosInfinity = NegInfinity"
| "js_times NegInfinity NegInfinity = PosInfinity"

text \<open>The two loops of \<open>deserializeDataPoints\<close>.\<close>

function deserialize_xy_loop :: "f64 list \<Rightarrow> nat \<Rightarrow> nat \<Rightarrow> nat \<Rightarrow> Point list \<Rightarrow> Point list" where
  "deserialize_xy_loop view pointCount i offset points =
     (if i < pointCount then
        deserialize_xy_loop view pointCount (i + 1) (offset + 2)
          (array_set points i (Tuple [view_get view offset, view_get view (offset + 1)]))
      else points)"
  by pat_completeness auto
termination
  by (relation "measure (\<lambda>(view, pointCount, i, offset, points). pointCount - i)") auto

declare deserialize_xy_loop.simps [simp del]

function deserialize_ohlc_loop :: "f64 list \<Rightarrow> nat \<Rightarrow> nat \<Rightarrow> nat \<Rightarrow> Point list \<Rightarrow> Point list" where
  "deserialize_ohlc_loop view pointCount i offset points =
     (if i < pointCount then
        deserialize_ohlc_loop view pointCount (i + 1) (offset + 5)
          (array_set points i
             (Tuple [view_get view offset, view_get view (offset + 1), view_get view (offset + 2),
                     view_get view (offset + 3), view_get view (offset + 4)]))
      else points)"
  by pat_completeness auto
termination
  by (relation "measure (\<lambda>(view, pointCount, i, offset, points). pointCount - i)") auto

declare deserialize_ohlc_loop.simps [simp del]

definition deserializeDataPoints :: "ArrayBuffer \<Rightarrow> number \<Rightarrow> number \<Rightarrow> WorkerException + Point list" where
  "deserializeDataPoints buffer pointCount stride =
     (let expectedSize = js_times pointCount stride in
      if \<not> js_eq (Finite (real (length buffer))) expectedSize then
        Inl (BufferSizeMismatch expectedSize pointCount stride (length buffer))
      else
        case new_Float64Array buffer of
          Inl e \<Rightarrow> Inl e
        | Inr view \<Rightarrow>
            if js_eq stride (Finite 16) then
              (case new_Array pointCount of
                 Inl e \<Rightarrow> Inl e
               | Inr points \<Rightarrow> Inr (deserialize_xy_loop view (length points) 0 0 points))
            else if js_eq stride (Finite 40) then
              (case new_Array pointCount of
                 Inl e \<Rightarrow> Inl e
               | Inr points \<Rightarrow> Inr (deserialize_ohlc_loop view (length points) 0 0 points))
            else Inl (InvalidStride stride))"

text \<open>
  What the proxy-side code throws: a \<open>ChartGPUWorkerError\<close> with its code, operation and
  chart id, or the TypeError of reading a property of \<open>undefined\<close> (or testing \<open>in\<close> on it)
  in \<open>serializeDataPoints\<close>.
\<close>

datatype ProxyErrorCode = DISPOSED | INVALID_ARGUMENT | COMMUNICATION_ERROR | TIMEOUT

datatype ProxyException = TypeError | ChartGPUWorkerError ProxyErrorCode string string

text \<open>\<open>isOHLC\<close>, from the first element.\<close>

fun isOHLC :: "Point \<Rightarrow> ProxyException + bool" where
  "isOHLC (Tuple p) = Inr (length p = 5)"
| "isOHLC (XYObject x y) = Inr False"
| "isOHLC (OHLCObject t op cl lo hi) = Inr True"
| "isOHLC Hole = Inl TypeError"

text \<open>The five values one element contributes in the OHLC branch, the two in the other.\<close>

fun ohlc_lanes :: "Point \<Rightarrow> ProxyException + f64 option list" where
  "ohlc_lanes (Tuple p) =
     Inr [tuple_get p 0, tuple_get p 1, tuple_get p 2, tuple_get p 3, tuple_get p 4]"
| "ohlc_lanes (OHLCObject t op cl lo hi) = Inr [Some t, Some op, Some cl, Some lo, Some hi]"
| "ohlc_lanes (XYObject x y) = Inr [None, None, None, None, None]"
| "ohlc_lanes Hole = Inl TypeError"

fun xy_lanes :: "Point \<Rightarrow> ProxyException + f64 option list" where
  "xy_lanes (Tuple p) = Inr [tuple_get p 0, tuple_get p 1]"
| "xy_lanes (XYObject x y) = Inr [Some x, Some y]"
| "xy_lanes (OHLCObject t op cl lo hi) = Inr [None, None]"
| "xy_lanes Hole = Inl TypeError"

function serialize_ohlc_loop :: "Point list \<Rightarrow> nat \<Rightarrow> nat \<Rightarrow> f64 list \<Rightarrow> ProxyException + f64 list" where
  "serialize_ohlc_loop points i offset view =
     (if i < length points then
        (case ohlc_lanes (points ! i) of
           Inl e \<Rightarrow> Inl e
         | Inr l \<Rightarrow>
             serialize_ohlc_loop points (i + 1) (offset + 5)
               (view_set (view_set (view_set (view_set (view_set view
                  offset (l ! 0)) (offset + 1) (l ! 1)) (offset + 2) (l ! 2))
                  (offset + 3) (l ! 3)) (offset + 4) (l ! 4)))
      else Inr view)"
  by pat_completeness auto
termination
  by (relation "measure (\<lambda>(points, i, offset, view). length points - i)") auto

declare serialize_ohlc_loop.simps [simp del]

function serialize_xy_loop :: "Point list \<Rightarrow> nat \<Rightarrow> nat \<Rightarrow> f64 list \<Rightarrow> ProxyException + f64 list" where
  "serialize_xy_loop points i offset view =
     (if i < length points then
        (case xy_lanes (points ! i) of
           Inl e \<Rightarrow> Inl e
         | Inr l \<Rightarrow>
             serialize_xy_loop points (i + 1) (offset + 2)
               (view_set (view_set view offset (l ! 0)) (offset + 1) (l ! 1)))
      else Inr view)"
  by pat_completeness auto
termination
  by (relation "measure (\<lambda>(points, i, offset, view). length points - i)") auto

declare serialize_xy_loop.simps [simp del]

text \<open>
  The result is the buffer and the stride. \<open>new ArrayBuffer (n)\<close> is zero-filled, and the
  view shares its bytes, so the buffer returned holds the bytes of the view's lanes.
\<close>

definition serializeDataPoints :: "Point list \<Rightarrow> ProxyException + (ArrayBuffer \<times> nat)" where
  "serializeDataPoints points =
     (if length points = 0 then Inr ([], 0)
      else
        case isOHLC (points ! 0) of
          Inl e \<Rightarrow> Inl e
        | Inr True \<Rightarrow>
            (let stride = 40;
                 view = lanes_of_bytes (replicate (length points * stride) 0)
             in case serialize_ohlc_loop points 0 0 view of
                  Inl e \<Rightarrow> Inl e
                | Inr view' \<Rightarrow> Inr (bytes_of_lanes view', stride))
        | Inr False \<Rightarrow>
            (let stride = 16;
                 view = lanes_of_bytes (replicate (length points * stride) 0)
             in case serialize_xy_loop points 0 0 view of
                  Inl e \<Rightarrow> Inl e
                | Inr view' \<Rightarrow> Inr (bytes_of_lanes view', stride)))"

section \<open>The render coordinator and the GPU context\<close>

text \<open>\<open>Math.floor\<close>, \<open>Math.min\<close> and \<open>Math.max\<close>\<close>

fun js_floor :: "number \<Rightarrow> number" where
  "js_floor (Finite r) = Finite (of_int \<lfloor>r\<rfloor>)"
| "js_floor v = v"

definition js_min :: "number \<Rightarrow> number \<Rightarrow> number" where
  "js_min a b = (if a = NaN \<or> b = NaN then NaN else if js_lt a b then a else b)"

definition js_max :: "number \<Rightarrow> number \<Rightarrow> number" where
  "js_max a b = (if a = NaN \<or> b = NaN then NaN else if js_lt a b then b else a)"

text \<open>
  \<open>ChartGPUOptions\<close> (src/config/types.ts), reduced to what the modelled coordinator
  uses: the series list with the data of each series, and whether a data-zoom
  configuration is present.
\<close>

record ChartGPUOptions =
  seriesData :: "Point list list"
  hasDataZoom :: bool

text \<open>
  \<open>resolveOptions\<close> (src/config/OptionResolver.ts) builds a new object from the user's
  options and returns its six properties \<open>grid\<close>, \<open>xAxis\<close>, \<open>yAxis\<close>, \<open>theme\<close>, \<open>palette\<close> and
  \<open>series\<close>. Every series is copied with its data (the colour and the styles it gains are
  not modelled); a \<open>dataZoom\<close> of the user's options is not copied, so the result has none.
\<close>

definition resolveOptions :: "ChartGPUOptions \<Rightarrow> ChartGPUOptions" where
  "resolveOptions userOptions = \<lparr>seriesData = seriesData userOptions, hasDataZoom = False\<rparr>"

text \<open>
  Modelled from the spec: \<open>PointerEventData\<close> (its declaration is not among the sources), a
  normalized pointer event with its kind and its position in CSS pixels.
\<close>

datatype PointerEventType = pointerdown | pointermove | pointerup | pointerleave | wheel

record PointerEventData =
  eventType :: PointerEventType
  offsetX :: number
  offsetY :: number

text \<open>
  Modelled from the spec: the state of the render coordinator
  (src/core/createRenderCoordinator.ts is not among the sources): the current options, the
  logical point list of every series, the frames rendered so far (each with the options and
  the data it drew), the pointer events forwarded to the interaction engine, the zoom
  window and the interaction x.
\<close>

record RenderCoordinator =
  coptions :: ChartGPUOptions
  store :: "Point list list"
  frames :: "(ChartGPUOptions \<times> Point list list) list"
  pointerEvents :: "PointerEventData list"
  zoomRange :: "(number \<times> number) option"
  interactionX :: "number option"

text \<open>The flags shared between a chart instance and the callbacks of its coordinator.\<close>

record ChartInstanceState =
  renderPending :: bool
  disposed :: bool
  deviceLost :: bool

text \<open>
  Modelled from the spec: \<open>GPUContextState\<close> (src/core/GPUContext.ts is not among the
  sources), reduced to what the controller reads: the device with its \<open>limits.maxTextureDimension2D\<close> (\<open>None\<close>: no
  device), whether the canvas context and the preferred format are there, and whether
  \<open>canvasContext.configure\<close> would throw.
\<close>

record GPUContextState =
  deviceMaxTextureDimension2D :: "nat option"
  hasCanvasContext :: bool
  hasPreferredFormat :: bool
  configureThrows :: bool

record OffscreenCanvas =
  canvasWidth :: number
  canvasHeight :: number

text \<open>
  The render channel of a chart, a \<open>MessageChannel\<close> of the platform: a message posted on
  one port is queued for the other port. \<open>port1_posted\<close> counts the messages posted with
  \<open>port1.postMessage\<close> (they wait at \<open>port2\<close>), \<open>port2_posted\<close> those posted with
  \<open>port2.postMessage\<close> and not yet delivered (they wait at \<open>port1\<close>). The ports are closed by
  \<open>disposeChart\<close> only, after which the instance is gone.
\<close>

record MessageChannel =
  port1_posted :: nat
  port2_posted :: nat

definition port1_postMessage :: "MessageChannel \<Rightarrow> MessageChannel" where
  "port1_postMessage ch = ch\<lparr>port1_posted := port1_posted ch + 1\<rparr>"

record ChartInstance =
  chartId :: string
  gpuContext :: GPUContextState
  coordinator :: RenderCoordinator
  canvas :: OffscreenCanvas
  renderChannel :: MessageChannel
  state :: ChartInstanceState

text \<open>The \<open>onRequestRender\<close> callback that \<open>initChart\<close> hands to the coordinator.\<close>

definition onRequestRender :: "ChartInstance \<Rightarrow> ChartInstance" where
  "onRequestRender inst =
     (if \<not> renderPending (state inst) \<and> \<not> disposed (state inst) then
        inst\<lparr>state := (state inst)\<lparr>renderPending := True\<rparr>,
             renderChannel := port1_postMessage (renderChannel inst)\<rparr>
      else inst)"

text \<open>
  Modelled from the spec: \<open>setOptions\<close> of the coordinator replaces the current options,
  marks them dirty and schedules a render through \<open>onRequestRender\<close>.
\<close>

definition coord_setOptions :: "ChartGPUOptions \<Rightarrow> ChartInstance \<Rightarrow> WorkerException + ChartInstance" where
  "coord_setOptions resolved inst =
     Inr (onRequestRender
       (inst\<lparr>coordinator := (coordinator inst)\<lparr>coptions := resolved, store := seriesData resolved\<rparr>\<rparr>))"

text \<open>
  Modelled from the spec: \<open>appendData\<close> of the coordinator validates the series index,
  appends to the logical list of the series, marks the data dirty and schedules a render.
\<close>

definition coord_appendData :: "number \<Rightarrow> Point list \<Rightarrow> ChartInstance \<Rightarrow> WorkerException + ChartInstance" where
  "coord_appendData seriesIndex points inst =
     (case seriesIndex of
        Finite r \<Rightarrow>
          if isInteger (Finite r) \<and> 0 \<le> r \<and> nat \<lfloor>r\<rfloor> < length (store (coordinator inst)) then
            (let i = nat \<lfloor>r\<rfloor>; co = coordinator inst in
             Inr (onRequestRender
               (inst\<lparr>coordinator := co\<lparr>store := (store co)[i := store co ! i @ points]\<rparr>\<rparr>)))
          else Inl (InvalidSeriesIndexForChart (length (store (coordinator inst))))
      | _ \<Rightarrow> Inl (InvalidSeriesIndexForChart (length (store (coordinator inst)))))"

text \<open>
  Modelled from the spec: \<open>render\<close> of the coordinator draws one frame from the current
  options and data.
\<close>

definition coord_render :: "ChartInstance \<Rightarrow> WorkerException + ChartInstance" where
  "coord_render inst =
     (let co = coordinator inst in
      Inr (inst\<lparr>coordinator := co\<lparr>frames := frames co @ [(coptions co, store co)]\<rparr>\<rparr>))"

text \<open>
  Modelled from the spec: \<open>handlePointerEvent\<close> of the coordinator forwards the event into
  the interaction engine.
\<close>

definition coord_handlePointerEvent :: "PointerEventData \<Rightarrow> ChartInstance \<Rightarrow> WorkerException + ChartInstance" where
  "coord_handlePointerEvent event inst =
     (let co = coordinator inst in
      Inr (inst\<lparr>coordinator := co\<lparr>pointerEvents := pointerEvents co @ [event]\<rparr>\<rparr>))"

text \<open>
  Modelled from the spec: \<open>setZoomRange\<close> of the coordinator clamps into percent space, is
  a no-op when zoom is disabled, and schedules a render.
\<close>

definition coord_setZoomRange :: "number \<Rightarrow> number \<Rightarrow> ChartInstance \<Rightarrow> WorkerException + ChartInstance" where
  "coord_setZoomRange start end inst =
     (let co = coordinator inst in
      if \<not> hasDataZoom (coptions co) then Inr inst
      else Inr (onRequestRender
        (inst\<lparr>coordinator := co\<lparr>zoomRange :=
           Some (js_max (Finite 0) (js_min (Finite 100) start),
                 js_max (Finite 0) (js_min (Finite 100) end))\<rparr>\<rparr>)))"

text \<open>
  Modelled from the spec: \<open>setInteractionX\<close> of the coordinator drives the crosshair from
  a domain x (or clears it) and schedules a render.
\<close>

definition coord_setInteractionX :: "number option \<Rightarrow> ChartInstance \<Rightarrow> WorkerException + ChartInstance" where
  "coord_setInteractionX x inst =
     (let co = coordinator inst in
      Inr (onRequestRender (inst\<lparr>coordinator := co\<lparr>interactionX := x\<rparr>\<rparr>)))"

section \<open>The worker controller (src/worker/ChartGPUWorkerController.ts, first part)\<close>

datatype ErrorCode = WEBGPU_INIT_FAILED | DEVICE_LOST | RENDER_ERROR | DATA_ERROR | UNKNOWN

text \<open>
  The outbound messages the modelled handlers emit. The message text of an error is the
  exception that was caught.
\<close>

datatype WorkerOutboundMessage =
    ErrorMessage string ErrorCode WorkerException string
  | DisposedMessage string "string list"
  | DeviceLostMessage string string string

record ResizeMessage =
  width :: number
  height :: number
  devicePixelRatio :: number
  requestRender :: bool

record AppendItem =
  itemSeriesIndex :: number
  itemData :: ArrayBuffer
  itemPointCount :: number
  itemStride :: number

datatype WorkerInboundMessage =
    SetOptionMessage string ChartGPUOptions
  | AppendDataMessage string number ArrayBuffer number number
  | AppendDataBatchMessage string "AppendItem list"
  | ResizeMsg string ResizeMessage
  | ForwardPointerEventMessage string PointerEventData
  | SetZoomRangeMessage string number number
  | SetInteractionXMessage string "number option"
  | SetAnimationMessage string bool
  | DisposeMessage string

text \<open>
  The controller: the chart registry, whether a message handler is registered, the
  messages handed to it, and those dropped with a warning while none was registered.
\<close>

record Controller =
  charts :: "string \<rightharpoonup> ChartInstance"
  messageHandler :: bool
  outbox :: "WorkerOutboundMessage list"
  dropped :: "WorkerOutboundMessage list"

definition validateSeriesIndex :: "number \<Rightarrow> string \<Rightarrow> WorkerException + unit" where
  "validateSeriesIndex seriesIndex context =
     (if \<not> isInteger seriesIndex \<or> js_lt seriesIndex (Finite 0)
      then Inl (InvalidSeriesIndex context seriesIndex) else Inr ())"

definition validatePointCount :: "number \<Rightarrow> string \<Rightarrow> WorkerException + unit" where
  "validatePointCount pointCount context =
     (if \<not> isInteger pointCount \<or> js_lt pointCount (Finite 0)
      then Inl (InvalidPointCount context pointCount) else Inr ())"

definition emit :: "WorkerOutboundMessage \<Rightarrow> Controller \<Rightarrow> Controller" where
  "emit msg c =
     (if messageHandler c then c\<lparr>outbox := outbox c @ [msg]\<rparr>
      else c\<lparr>dropped := dropped c @ [msg]\<rparr>)"

definition emitError :: "string \<Rightarrow> ErrorCode \<Rightarrow> WorkerException \<Rightarrow> string \<Rightarrow> Controller \<Rightarrow> Controller" where
  "emitError cid code message operation c = emit (ErrorMessage cid code message operation) c"

definition getChartInstance :: "string \<Rightarrow> string \<Rightarrow> Controller \<Rightarrow> WorkerException + ChartInstance" where
  "getChartInstance cid operation c =
     (case charts c cid of
        None \<Rightarrow> Inl (ChartNotFound cid operation)
      | Some instance \<Rightarrow>
          if disposed (state instance) then Inl (ChartIsDisposed cid operation)
          else if deviceLost (state instance) then Inl (ChartDeviceIsLost cid operation)
          else Inr instance)"

text \<open>
  A handler works on the instance object itself; here it puts the changed instance back
  into the registry.
\<close>

definition put_chart :: "string \<Rightarrow> ChartInstance \<Rightarrow> Controller \<Rightarrow> Controller" where
  "put_chart cid instance c = c\<lparr>charts := (charts c)(cid \<mapsto> instance)\<rparr>"

definition handleSetOption :: "string \<Rightarrow> ChartGPUOptions \<Rightarrow> Controller \<Rightarrow> Controller" where
  "handleSetOption cid options c =
     (case getChartInstance cid ''setOption'' c of
        Inl e \<Rightarrow> emitError cid UNKNOWN e ''setOption'' c
      | Inr instance \<Rightarrow>
          (case coord_setOptions (resolveOptions options) instance of
             Inl e \<Rightarrow> emitError cid UNKNOWN e ''setOption'' c
           | Inr instance' \<Rightarrow> put_chart cid instance' c))"

definition handleAppendData ::
  "string \<Rightarrow> number \<Rightarrow> ArrayBuffer \<Rightarrow> number \<Rightarrow> number \<Rightarrow> Controller \<Rightarrow> Controller" where
  "handleAppendData cid seriesIndex data pointCount stride c =
     (case validateSeriesIndex seriesIndex ''in appendData'' of
        Inl e \<Rightarrow> emitError cid DATA_ERROR e ''appendData'' c
      | Inr _ \<Rightarrow>
     (case validatePointCount pointCount ''in appendData'' of
        Inl e \<Rightarrow> emitError cid DATA_ERROR e ''appendData'' c
      | Inr _ \<Rightarrow>
     (case getChartInstance cid ''appendData'' c of
        Inl e \<Rightarrow> emitError cid DATA_ERROR e ''appendData'' c
      | Inr instance \<Rightarrow>
     (case deserializeDataPoints data pointCount stride of
        Inl e \<Rightarrow> emitError cid DATA_ERROR e ''appendData'' c
      | Inr points \<Rightarrow>
     (case coord_appendData seriesIndex points instance of
        Inl e \<Rightarrow> emitError cid DATA_ERROR e ''appendData'' c
      | Inr instance' \<Rightarrow> put_chart cid instance' c)))))"

text \<open>The two loops of \<open>handleAppendDataBatch\<close>: validate every item, then append them in turn.\<close>

fun validate_items :: "AppendItem list \<Rightarrow> WorkerException + unit" where
  "validate_items [] = Inr ()"
| "validate_items (item # items) =
     (case validateSeriesIndex (itemSeriesIndex item) ''at batch index'' of
        Inl e \<Rightarrow> Inl e
      | Inr _ \<Rightarrow>
     (case validatePointCount (itemPointCount item) ''at batch index'' of
        Inl e \<Rightarrow> Inl e
      | Inr _ \<Rightarrow> validate_items items))"

fun append_items :: "AppendItem list \<Rightarrow> ChartInstance \<Rightarrow> WorkerException option \<times> ChartInstance" where
  "append_items [] instance = (None, instance)"
| "append_items (item # items) instance =
     (case deserializeDataPoints (itemData item) (itemPointCount item) (itemStride item) of
        Inl e \<Rightarrow> (Some e, instance)
      | Inr points \<Rightarrow>
     (case coord_appendData (itemSeriesIndex item) points instance of
        Inl e \<Rightarrow> (Some e, instance)
      | Inr instance' \<Rightarrow> append_items items instance'))"

definition handleAppendDataBatch :: "string \<Rightarrow> AppendItem list \<Rightarrow> Controller \<Rightarrow> Controller" where
  "handleAppendDataBatch cid items c =
     (case getChartInstance cid ''appendDataBatch'' c of
        Inl e \<Rightarrow> emitError cid DATA_ERROR e ''appendDataBatch'' c
      | Inr instance \<Rightarrow>
     (case validate_items items of
        Inl e \<Rightarrow> emitError cid DATA_ERROR e ''appendDataBatch'' c
      | Inr _ \<Rightarrow>
     (case append_items items instance of
        (None, instance') \<Rightarrow> put_chart cid instance' c
      | (Some e, instance') \<Rightarrow>
          emitError cid DATA_ERROR e ''appendDataBatch'' (put_chart cid instance' c))))"

text \<open>
  The body of the \<open>try\<close> block of \<open>handleResize\<close> after the instance was found. It changes
  the canvas before its later checks, so an exception comes with the instance as left.
\<close>

definition resize_instance :: "ResizeMessage \<Rightarrow> ChartInstance \<Rightarrow> WorkerException option \<times> ChartInstance" where
  "resize_instance msg instance =
     (if deviceLost (state instance) then (Some CannotResizeDeviceLost, instance)
      else if js_le (width msg) (Finite 0) \<or> js_le (height msg) (Finite 0)
        then (Some (InvalidDimensions (width msg) (height msg)), instance)
      else if js_le (devicePixelRatio msg) (Finite 0)
        then (Some (InvalidDevicePixelRatio (devicePixelRatio msg)), instance)
      else
        let targetWidth = js_floor (js_times (width msg) (devicePixelRatio msg));
            targetHeight = js_floor (js_times (height msg) (devicePixelRatio msg))
        in
        if js_eq targetWidth (Finite 0) \<or> js_eq targetHeight (Finite 0)
          then (Some CanvasDimensionsZero, instance)
        else
          case deviceMaxTextureDimension2D (gpuContext instance) of
            None \<Rightarrow> (Some DeviceNotAvailable, instance)
          | Some maxDim \<Rightarrow>
              let finalWidth = js_max (Finite 1) (js_min targetWidth (Finite (real maxDim)));
                  finalHeight = js_max (Finite 1) (js_min targetHeight (Finite (real maxDim)));
                  instance1 = instance\<lparr>canvas := \<lparr>canvasWidth = finalWidth, canvasHeight = finalHeight\<rparr>\<rparr>
              in
              if \<not> hasCanvasContext (gpuContext instance) then (Some CanvasContextNotAvailable, instance1)
              else if \<not> hasPreferredFormat (gpuContext instance)
                then (Some PreferredFormatNotAvailable, instance1)
              else if configureThrows (gpuContext instance) then (Some ReconfigureFailed, instance1)
              else if requestRender msg then
                (case coord_render instance1 of
                   Inl e \<Rightarrow> (Some e, instance1)
                 | Inr instance2 \<Rightarrow> (None, instance2))
              else (None, instance1))"

definition handleResize :: "string \<Rightarrow> ResizeMessage \<Rightarrow> Controller \<Rightarrow> Controller" where
  "handleResize cid msg c =
     (case getChartInstance cid ''resize'' c of
        Inl e \<Rightarrow> emitError cid RENDER_ERROR e ''resize'' c
      | Inr instance \<Rightarrow>
          (case resize_instance msg instance of
             (None, instance') \<Rightarrow> put_chart cid instance' c
           | (Some e, instance') \<Rightarrow> emitError cid RENDER_ERROR e ''resize'' (put_chart cid instance' c)))"

definition handlePointerEvent :: "string \<Rightarrow> PointerEventData \<Rightarrow> Controller \<Rightarrow> Controller" where
  "handlePointerEvent cid event c =
     (case getChartInstance cid ''forwardPointerEvent'' c of
        Inl e \<Rightarrow> emitError cid UNKNOWN e ''forwardPointerEvent'' c
      | Inr instance \<Rightarrow>
          (case coord_handlePointerEvent event instance of
             Inl e \<Rightarrow> emitError cid UNKNOWN e ''forwardPointerEvent'' c
           | Inr instance' \<Rightarrow> put_chart cid instance' c))"

definition handleSetZoomRange :: "string \<Rightarrow> number \<Rightarrow> number \<Rightarrow> Controller \<Rightarrow> Controller" where
  "handleSetZoomRange cid start end c =
     (if js_lt start (Finite 0) \<or> js_gt start (Finite 1) \<or> js_lt end (Finite 0) \<or> js_gt end (Finite 1)
        then emitError cid UNKNOWN (InvalidZoomRangeBounds start end) ''setZoomRange'' c
      else if js_ge start end
        then emitError cid UNKNOWN (InvalidZoomRangeOrder start end) ''setZoomRange'' c
      else
        case getChartInstance cid ''setZoomRange'' c of
          Inl e \<Rightarrow> emitError cid UNKNOWN e ''setZoomRange'' c
        | Inr instance \<Rightarrow>
            (case coord_setZoomRange start end instance of
               Inl e \<Rightarrow> emitError cid UNKNOWN e ''setZoomRange'' c
             | Inr instance' \<Rightarrow> put_chart cid instance' c))"

definition handleSetInteractionX :: "string \<Rightarrow> number option \<Rightarrow> Controller \<Rightarrow> Controller" where
  "handleSetInteractionX cid x c =
     (case getChartInstance cid ''setInteractionX'' c of
        Inl e \<Rightarrow> emitError cid UNKNOWN e ''setInteractionX'' c
      | Inr instance \<Rightarrow>
          (case coord_setInteractionX x instance of
             Inl e \<Rightarrow> emitError cid UNKNOWN e ''setInteractionX'' c
           | Inr instance' \<Rightarrow> put_chart cid instance' c))"

definition handleSetAnimation :: "string \<Rightarrow> bool \<Rightarrow> Controller \<Rightarrow> Controller" where
  "handleSetAnimation cid enabled c =
     (case getChartInstance cid ''setAnimation'' c of
        Inl e \<Rightarrow> emitError cid UNKNOWN e ''setAnimation'' c
      | Inr instance \<Rightarrow>
          if enabled then
            (case coord_render instance of
               Inl e \<Rightarrow> emitError cid UNKNOWN e ''setAnimation'' c
             | Inr instance' \<Rightarrow> put_chart cid instance' c)
          else c)"

text \<open>
  \<open>disposeChart\<close>. The clean-up steps (closing the ports, disposing the coordinator,
  destroying the GPU context) work on the instance, which then leaves the registry; they
  are taken not to throw, so \<open>cleanupErrors\<close> stays empty.
\<close>

definition disposeChart :: "string \<Rightarrow> Controller \<Rightarrow> Controller" where
  "disposeChart cid c =
     (case charts c cid of
        None \<Rightarrow> emitError cid UNKNOWN (ChartNotFound cid ''dispose'') ''dispose'' c
      | Some instance \<Rightarrow>
          if disposed (state instance)
            then emitError cid UNKNOWN (ChartIsDisposed cid ''dispose'') ''dispose'' c
          else emit (DisposedMessage cid []) (c\<lparr>charts := (charts c)(cid := None)\<rparr>))"

fun handleMessage :: "WorkerInboundMessage \<Rightarrow> Controller \<Rightarrow> Controller" where
  "handleMessage (SetOptionMessage cid options) c = handleSetOption cid options c"
| "handleMessage (AppendDataMessage cid seriesIndex data pointCount stride) c =
     handleAppendData cid seriesIndex data pointCount stride c"
| "handleMessage (AppendDataBatchMessage cid items) c = handleAppendDataBatch cid items c"
| "handleMessage (ResizeMsg cid msg) c = handleResize cid msg c"
| "handleMessage (ForwardPointerEventMessage cid event) c = handlePointerEvent cid event c"
| "handleMessage (SetZoomRangeMessage cid start end) c = handleSetZoomRange cid start end c"
| "handleMessage (SetInteractionXMessage cid x) c = handleSetInteractionX cid x c"
| "handleMessage (SetAnimationMessage cid enabled) c = handleSetAnimation cid enabled c"
| "handleMessage (DisposeMessage cid) c = disposeChart cid c"

text \<open>Messages are applied in arrival order.\<close>

fun handleMessages :: "WorkerInboundMessage list \<Rightarrow> Controller \<Rightarrow> Controller" where
  "handleMessages [] c = c"
| "handleMessages (msg # msgs) c = handleMessages msgs (handleMessage msg c)"

text \<open>
  The \<open>onmessage\<close> handler that \<open>initChart\<close> installs on \<open>renderChannel.port1\<close>. It works on
  the state and the coordinator it captured; a chart that left the registry was disposed,
  and for a disposed chart the handler does nothing.
\<close>

definition port1_onmessage :: "string \<Rightarrow> Controller \<Rightarrow> Controller" where
  "port1_onmessage cid c =
     (case charts c cid of
        None \<Rightarrow> c
      | Some instance \<Rightarrow>
          if \<not> disposed (state instance) \<and> \<not> deviceLost (state instance) then
            (let instance1 = instance\<lparr>state := (state instance)\<lparr>renderPending := False\<rparr>\<rparr> in
             case coord_render instance1 of
               Inl e \<Rightarrow> emitError cid RENDER_ERROR e ''render'' (put_chart cid instance1 c)
             | Inr instance2 \<Rightarrow> put_chart cid instance2 c)
          else if deviceLost (state instance) then
            put_chart cid (instance\<lparr>state := (state instance)\<lparr>renderPending := False\<rparr>\<rparr>) c
          else c)"

text \<open>
  One turn of the platform for the render channel of a chart: a message waiting at
  \<open>port1\<close> is taken from its queue and handed to the \<open>onmessage\<close> handler of \<open>port1\<close>; with
  nothing waiting there, no handler runs. Nothing listens on \<open>port2\<close>.
\<close>

definition port1_deliver :: "string \<Rightarrow> Controller \<Rightarrow> Controller" where
  "port1_deliver cid c =
     (case charts c cid of
        None \<Rightarrow> c
      | Some instance \<Rightarrow>
          if port2_posted (renderChannel instance) = 0 then c
          else port1_onmessage cid
                 (put_chart cid
                    (instance\<lparr>renderChannel := (renderChannel instance)
                       \<lparr>port2_posted := port2_posted (renderChannel instance) - 1\<rparr>\<rparr>) c))"

text \<open>The \<open>onDeviceLost\<close> callback that \<open>initChart\<close> hands to the coordinator.\<close>

definition onDeviceLost :: "string \<Rightarrow> string \<Rightarrow> Controller \<Rightarrow> Controller" where
  "onDeviceLost cid reason c =
     (let c1 = (case charts c cid of
                  None \<Rightarrow> c
                | Some instance \<Rightarrow>
                    put_chart cid (instance\<lparr>state := (state instance)\<lparr>deviceLost := True\<rparr>\<rparr>) c)
      in emit (DeviceLostMessage cid (if reason = ''destroyed'' then ''destroyed'' else ''unknown'') reason) c1)"

text \<open>The updates of one chart that go through the notifier: setOption and appendData.\<close>

fun is_update :: "string \<Rightarrow> WorkerInboundMessage \<Rightarrow> bool" where
  "is_update cid (SetOptionMessage cid' options) = (cid' = cid)"
| "is_update cid (AppendDataMessage cid' seriesIndex data pointCount stride) = (cid' = cid)"
| "is_update cid msg = False"

section \<open>The render scheduler (src/core/RenderScheduler.ts)\<close>

text \<open>
  What a render callback can do to the scheduler that calls it: stop it or mark it dirty.
  A callback is given by the calls it makes for a delta time; it is taken not to throw.
\<close>

datatype CallbackAction = CallStop | CallRequestRender

datatype SchedulerError = CallbackRequired | AlreadyRunning

text \<open>
  The scheduler with the part of its environment it acts on: the fields of the class, the
  callback captured by \<open>frameHandler\<close>, the animation frames requested and not yet run or
  cancelled, the next request id, and the delta times the callback was invoked with.
\<close>

record RenderScheduler =
  rafId :: "nat option"
  isRunning :: bool
  lastFrameTime :: real
  dirty :: bool
  callback :: "real \<Rightarrow> CallbackAction list"
  pendingFrames :: "nat list"
  nextRafId :: nat
  calls :: "real list"

definition new_RenderScheduler :: RenderScheduler where
  "new_RenderScheduler =
     \<lparr>rafId = None, isRunning = False, lastFrameTime = 0, dirty = False,
      callback = (\<lambda>deltaTime. []), pendingFrames = [], nextRafId = 1, calls = []\<rparr>"

definition requestAnimationFrame :: "RenderScheduler \<Rightarrow> RenderScheduler" where
  "requestAnimationFrame s =
     s\<lparr>rafId := Some (nextRafId s), pendingFrames := pendingFrames s @ [nextRafId s],
       nextRafId := nextRafId s + 1\<rparr>"

definition scheduler_stop :: "RenderScheduler \<Rightarrow> RenderScheduler" where
  "scheduler_stop s =
     (let s1 = s\<lparr>isRunning := False\<rparr> in
      case rafId s1 of
        None \<Rightarrow> s1
      | Some i \<Rightarrow> s1\<lparr>pendingFrames := removeAll i (pendingFrames s1), rafId := None\<rparr>)"

definition scheduler_requestRender :: "RenderScheduler \<Rightarrow> RenderScheduler" where
  "scheduler_requestRender s = s\<lparr>dirty := True\<rparr>"

text \<open>\<open>start (callback)\<close>, called at time \<open>now\<close>; \<open>None\<close> stands for a missing callback.\<close>

definition scheduler_start ::
  "(real \<Rightarrow> CallbackAction list) option \<Rightarrow> real \<Rightarrow> RenderScheduler \<Rightarrow> SchedulerError + RenderScheduler" where
  "scheduler_start cb now s =
     (case cb of
        None \<Rightarrow> Inl CallbackRequired
      | Some f \<Rightarrow>
          if isRunning s then Inl AlreadyRunning
          else Inr (requestAnimationFrame
                      (s\<lparr>isRunning := True, lastFrameTime := now, dirty := True, callback := f\<rparr>)))"

fun run_action :: "CallbackAction \<Rightarrow> RenderScheduler \<Rightarrow> RenderScheduler" where
  "run_action CallStop s = scheduler_stop s"
| "run_action CallRequestRender s = scheduler_requestRender s"

text \<open>Invoking the callback: the invocation is recorded, then its calls take effect.\<close>

definition invoke_callback :: "real \<Rightarrow> RenderScheduler \<Rightarrow> RenderScheduler" where
  "invoke_callback deltaTime s =
     fold run_action (callback s deltaTime) (s\<lparr>calls := calls s @ [deltaTime]\<rparr>)"

definition frameHandler :: "real \<Rightarrow> RenderScheduler \<Rightarrow> RenderScheduler" where
  "frameHandler currentTime s =
     (if \<not> isRunning s then s
      else
        let deltaTime = currentTime - lastFrameTime s;
            s1 = s\<lparr>lastFrameTime := currentTime\<rparr>;
            s2 = (if dirty s1 then s1\<lparr>dirty := False\<rparr> else s1);
            s3 = invoke_callback deltaTime s2
        in if isRunning s3 then requestAnimationFrame s3 else s3)"

text \<open>The frame clock runs the oldest requested frame, if there is one.\<close>

definition animationFrame :: "real \<Rightarrow> RenderScheduler \<Rightarrow> RenderScheduler" where
  "animationFrame currentTime s =
     (case pendingFrames s of
        [] \<Rightarrow> s
      | i # rest \<Rightarrow> frameHandler currentTime (s\<lparr>pendingFrames := rest\<rparr>))"

section \<open>The worker proxy (src/worker/ChartGPUWorkerController.ts, second part)\<close>

text \<open>
  The state of a \<open>ChartGPUWorkerProxy\<close>: its flag and caches, the pending correlated
  requests (message id and operation), the promises rejected so far, the messages handed
  to \<open>worker.postMessage\<close>, the event names with a registered callback, and whether the
  canvas listeners, the resize monitoring, the overlays, the worker message handler and
  the canvas are in place. \<open>worker.postMessage\<close> is taken not to throw: every message is a
  plain record and every transferred buffer is freshly made.
\<close>

record ChartGPUWorkerProxy =
  proxyChartId :: string
  isDisposed :: bool
  cachedZoomRange :: "(number \<times> number) option"
  cachedInteractionX :: "number option"
  pendingRequests :: "(string \<times> string) list"
  rejections :: "(string \<times> ProxyException) list"
  posted :: "WorkerInboundMessage list"
  listeners :: "string list"
  eventListenersAttached :: bool
  resizeMonitoring :: bool
  overlaysCreated :: bool
  workerMessageHandlerAttached :: bool
  canvasInContainer :: bool

definition sendMessage :: "WorkerInboundMessage \<Rightarrow> ChartGPUWorkerProxy \<Rightarrow> ChartGPUWorkerProxy" where
  "sendMessage message p = (if isDisposed p then p else p\<lparr>posted := posted p @ [message]\<rparr>)"

definition proxy_appendData ::
  "number \<Rightarrow> Point list \<Rightarrow> ChartGPUWorkerProxy \<Rightarrow> ProxyException + ChartGPUWorkerProxy" where
  "proxy_appendData seriesIndex newPoints p =
     (if isDisposed p then Inl (ChartGPUWorkerError DISPOSED ''appendData'' (proxyChartId p))
      else if \<not> isInteger seriesIndex \<or> js_lt seriesIndex (Finite 0)
        then Inl (ChartGPUWorkerError INVALID_ARGUMENT ''appendData'' (proxyChartId p))
      else if length newPoints = 0 then Inr p
      else
        case serializeDataPoints newPoints of
          Inl e \<Rightarrow> Inl e
        | Inr (data, stride) \<Rightarrow>
            Inr (sendMessage
                   (AppendDataMessage (proxyChartId p) seriesIndex data
                      (Finite (real (length newPoints))) (Finite (real stride))) p))"

definition proxy_dispose :: "ChartGPUWorkerProxy \<Rightarrow> ChartGPUWorkerProxy" where
  "proxy_dispose p =
     (if isDisposed p then p
      else
        let p1 = p\<lparr>isDisposed := True\<rparr>;
            p2 = p1\<lparr>eventListenersAttached := False\<rparr>;
            p3 = p2\<lparr>resizeMonitoring := False\<rparr>;
            p4 = p3\<lparr>overlaysCreated := False\<rparr>;
            p5 = sendMessage (DisposeMessage (proxyChartId p4)) p4;
            p6 = p5\<lparr>rejections := rejections p5 @
                   map (\<lambda>(messageId, operation).
                          (messageId, ChartGPUWorkerError DISPOSED operation (proxyChartId p5)))
                       (pendingRequests p5),
                     pendingRequests := []\<rparr>;
            p7 = p6\<lparr>listeners := []\<rparr>;
            p8 = p7\<lparr>workerMessageHandlerAttached := False\<rparr>
        in p8\<lparr>canvasInContainer := False\<rparr>)"

definition getZoomRange :: "ChartGPUWorkerProxy \<Rightarrow> (number \<times> number) option" where
  "getZoomRange p = (if isDisposed p then None else cachedZoomRange p)"

definition proxy_setZoomRange ::
  "number \<Rightarrow> number \<Rightarrow> ChartGPUWorkerProxy \<Rightarrow> ProxyException + ChartGPUWorkerProxy" where
  "proxy_setZoomRange start end p =
     (if isDisposed p then Inr p
      else if js_lt start (Finite 0) \<or> js_gt start (Finite 100) \<or>
              js_lt end (Finite 0) \<or> js_gt end (Finite 100)
        then Inl (ChartGPUWorkerError INVALID_ARGUMENT ''setZoomRange'' (proxyChartId p))
      else if js_ge start end
        then Inl (ChartGPUWorkerError INVALID_ARGUMENT ''setZoomRange'' (proxyChartId p))
      else Inr (sendMessage (SetZoomRangeMessage (proxyChartId p) start end)
                  (p\<lparr>cachedZoomRange := Some (start, end)\<rparr>)))"

section \<open>Concrete states for the examples\<close>

text \<open>A running chart with one empty series, and a controller that holds it as \<open>c1\<close>.\<close>

definition example_instance :: ChartInstance where
  "example_instance =
     \<lparr>chartId = ''c1'',
      gpuContext = \<lparr>deviceMaxTextureDimension2D = Some 8192, hasCanvasContext = True,
                    hasPreferredFormat = True, configureThrows = False\<rparr>,
      coordinator = \<lparr>coptions = \<lparr>seriesData = [ [] ], hasDataZoom = False\<rparr>, store = [ [] ],
                     frames = [], pointerEvents = [], zoomRange = None, interactionX = None\<rparr>,
      canvas = \<lparr>canvasWidth = Finite 300, canvasHeight = Finite 150\<rparr>,
      renderChannel = \<lparr>port1_posted = 0, port2_posted = 0\<rparr>,
      state = \<lparr>renderPending = False, disposed = False, deviceLost = False\<rparr>\<rparr>"

definition example_controller :: Controller where
  "example_controller =
     \<lparr>charts = [''c1'' \<mapsto> example_instance], messageHandler = True, outbox = [], dropped = []\<rparr>"

text \<open>The same controller after the device of \<open>c1\<close> was lost.\<close>

definition example_lost_controller :: Controller where
  "example_lost_controller =
     \<lparr>charts = [''c1'' \<mapsto> example_instance\<lparr>state := \<lparr>renderPending = False, disposed = False, deviceLost = True\<rparr>\<rparr>],
      messageHandler = True, outbox = [], dropped = []\<rparr>"

text \<open>A proxy after \<open>init\<close>.\<close>

definition example_proxy :: ChartGPUWorkerProxy where
  "example_proxy =
     \<lparr>proxyChartId = ''c1'', isDisposed = False, cachedZoomRange = None,
      cachedInteractionX = None, pendingRequests = [], rejections = [], posted = [],
      listeners = [], eventListenersAttached = True, resizeMonitoring = True,
      overlaysCreated = True, workerMessageHandlerAttached = True, canvasInContainer = True\<rparr>"

section \<open>Properties of the scales\<close>







text \<open>Building a scale: \<open>domain\<close> and \<open>range\<close> accept finite bounds only.\<close>

lemma linear_scale_example:
  "(case linear_domain (Finite 0) (Finite 10) createLinearScale of
      Inl e \<Rightarrow> Inl e
    | Inr s \<Rightarrow> linear_range (Finite 100) (Finite 300) s) =
   Inr \<lparr>domainMin = 0, domainMax = 10, rangeMin = 100, rangeMax = 300\<rparr>"
  by (simp add: linear_domain_def linear_range_def createLinearScale_def)

lemma linear_domain_not_finite:
  "linear_domain NaN (Finite 1) s = Inl (MustBeFinite ''domain min'' NaN)"
  by (simp add: linear_domain_def)

text \<open>Rounding to binary64: what is representable, and what overflows.\<close>

lemma round_half_even_of_int [simp]: "round_half_even (of_int n) = n"
  by (simp add: round_half_even_def)

lemma floor_log2_binade:
  assumes "2 powi e \<le> x" and "x < 2 powi (e + 1)"
  shows "\<lfloor>log 2 x\<rfloor> = e"
proof -
  have "(0::real) < 2 powi e" by simp
  with assms(1) have x: "0 < x" by linarith
  have "(2::real) powr real_of_int e = 2 powi e" "(2::real) powr real_of_int (e + 1) = 2 powi (e + 1)"
    using powr_real_of_int'[of 2 e] powr_real_of_int'[of 2 "e + 1"] by simp_all
  with assms have "2 powr real_of_int e \<le> x \<and> x < 2 powr real_of_int (e + 1)" by simp
  with x show ?thesis using floor_log_eq_powr_iff[of x 2 e] by simp
qed

lemma binary64_binade:
  assumes "2 powi e \<le> \<bar>x\<bar>" and "\<bar>x\<bar> < 2 powi (e + 1)" and "- 1022 \<le> e"
  shows "binary64 x =
     (let ulp = 2 powi (e - 52);
          y = of_int (round_half_even (x / ulp)) * ulp
      in if 2 ^ 1024 \<le> \<bar>y\<bar> then (if 0 < x then PosInfinity else NegInfinity) else Finite y)"
proof -
  have "(0::real) < 2 powi e" by simp
  with assms(1) have "x \<noteq> 0" by (cases "x = 0") simp_all
  moreover from floor_log2_binade[OF assms(1,2)] assms(3)
  have "max (- 1022) \<lfloor>log 2 \<bar>x\<bar>\<rfloor> = e" by simp
  ultimately show ?thesis by (simp add: binary64_def)
qed

lemma representable_0 [simp]: "representable 0"
  by (simp add: representable_def binary64_def)

lemma representable_dyadic:
  assumes m: "\<bar>m\<bar> < 2 ^ 53" and k: "- 1074 \<le> k" and x: "x = of_int m * 2 powi k"
    and big: "\<bar>x\<bar> < 2 ^ 1024"
  shows "representable x"
proof (cases "x = 0")
  case True
  then show ?thesis by simp
next
  case False
  define e where "e = max (- 1022) \<lfloor>log 2 \<bar>x\<bar>\<rfloor>"
  have pos: "0 < \<bar>x\<bar>" using False by simp
  have "\<bar>x\<bar> = of_int \<bar>m\<bar> * 2 powi k" by (simp add: x abs_mult)
  also have "\<dots> < 2 ^ 53 * 2 powi k"
  proof -
    from m have "(of_int \<bar>m\<bar> :: real) < of_int (2 ^ 53)" by (subst of_int_less_iff)
    then show ?thesis by simp
  qed
  also have "\<dots> = 2 powi (k + 53)" by (simp add: power_int_add)
  finally have "\<bar>x\<bar> < 2 powr real_of_int (k + 53)"
    using powr_real_of_int'[of 2 "k + 53"] by simp
  with pos have "log 2 \<bar>x\<bar> < real_of_int (k + 53)"
    using log_less_iff[of 2 "\<bar>x\<bar>" "real_of_int (k + 53)"] by simp
  then have "\<lfloor>log 2 \<bar>x\<bar>\<rfloor> < k + 53" by (simp add: floor_less_iff)
  with k have e: "e \<le> k + 52" by (simp add: e_def)
  define j where "j = nat (k + 52 - e)"
  have kj: "k = (e - 52) + int j" using e by (simp add: j_def)
  have "x / 2 powi (e - 52) = of_int m * (2 powi k / 2 powi (e - 52))" by (simp add: x)
  also have "2 powi k / 2 powi (e - 52) = (2::real) ^ j"
    by (subst kj) (simp add: power_int_add)
  also have "of_int m * (2::real) ^ j = of_int (m * 2 ^ j)" by simp
  finally have q: "x / 2 powi (e - 52) = of_int (m * 2 ^ j)" .
  have y: "of_int (round_half_even (x / 2 powi (e - 52))) * 2 powi (e - 52) = x"
    by (subst q, subst round_half_even_of_int, subst q[symmetric]) simp
  from big have nb: "\<not> 2 ^ 1024 \<le> \<bar>x\<bar>" by simp
  show ?thesis
    unfolding representable_def binary64_def Let_def e_def[symmetric]
    using False y nb by simp
qed

lemma representable_pow2:
  "- 1074 \<le> k \<Longrightarrow> k \<le> 1023 \<Longrightarrow> representable (2 powi k)"
proof -
  assume k: "- 1074 \<le> k" "k \<le> 1023"
  have "(2::real) powi k \<le> 2 powi 1023" using k by (intro power_int_increasing) simp_all
  also have "\<dots> < 2 ^ 1024" by simp
  finally have "\<bar>(2::real) powi k\<bar> < 2 ^ 1024" by simp
  with k show ?thesis by (intro representable_dyadic[of 1 k]) simp_all
qed

lemma representable_int:
  "\<bar>m\<bar> < 2 ^ 53 \<Longrightarrow> representable (of_int m)"
proof -
  assume m: "\<bar>m\<bar> < 2 ^ 53"
  then have "(of_int \<bar>m\<bar> :: real) < of_int (2 ^ 53)" by (subst of_int_less_iff)
  also have "\<dots> < 2 ^ 1024" by simp
  finally have "\<bar>of_int m :: real\<bar> < 2 ^ 1024" by simp
  with m show ?thesis by (intro representable_dyadic[of m 0]) simp_all
qed

lemma round_half_even_bounds: "\<lfloor>x\<rfloor> \<le> round_half_even x \<and> round_half_even x \<le> \<lceil>x\<rceil>"
proof (cases "x = of_int \<lfloor>x\<rfloor>")
  case True
  then have "round_half_even x = \<lfloor>x\<rfloor>" by (metis round_half_even_of_int)
  then show ?thesis by (simp add: floor_le_ceiling)
next
  case False
  then have "\<lceil>x\<rceil> = \<lfloor>x\<rfloor> + 1" by (simp add: ceiling_altdef)
  then show ?thesis by (simp add: round_half_even_def Let_def)
qed

lemma binary64_overflow:
  assumes "2 ^ 1024 \<le> \<bar>x\<bar>"
  shows "binary64 x = (if 0 < x then PosInfinity else NegInfinity)"
proof -
  define L where "L = \<lfloor>log 2 \<bar>x\<bar>\<rfloor>"
  have pos: "0 < \<bar>x\<bar>" using assms by (smt (verit) zero_less_power)
  then have nz: "x \<noteq> 0" by simp
  have "(2::real) powr real_of_int 1024 = 2 ^ 1024"
    using powr_real_of_int'[of 2 1024] by simp
  with assms have "2 powr real_of_int 1024 \<le> \<bar>x\<bar>" by simp
  with pos have "real_of_int 1024 \<le> log 2 \<bar>x\<bar>"
    using le_log_iff[of 2 "\<bar>x\<bar>" "real_of_int 1024"] by simp
  then have L: "1024 \<le> L" unfolding L_def by (simp add: le_floor_iff)
  have "2 powr real_of_int L \<le> \<bar>x\<bar>"
    using floor_log_eq_powr_iff[of "\<bar>x\<bar>" 2 L] pos by (simp add: L_def)
  then have low: "2 powi L \<le> \<bar>x\<bar>" using powr_real_of_int'[of 2 L] by simp
  define ulp :: real where "ulp = 2 powi (L - 52)"
  have ulp: "0 < ulp" by (simp add: ulp_def)
  have pw: "2 powi L = 2 ^ 52 * ulp"
    unfolding ulp_def using power_int_add[of "2::real" 52 "L - 52"] by simp
  with low ulp have q: "2 ^ 52 \<le> \<bar>x\<bar> / ulp" by (simp add: pos_le_divide_eq)
  have r: "(2 ^ 52 :: int) \<le> \<bar>round_half_even (x / ulp)\<bar>"
  proof (cases "0 < x")
    case True
    with q have "of_int (2 ^ 52) \<le> x / ulp" by simp
    then have "2 ^ 52 \<le> \<lfloor>x / ulp\<rfloor>" by (subst le_floor_iff)
    with round_half_even_bounds[of "x / ulp"] show ?thesis by linarith
  next
    case False
    with q have "x / ulp \<le> of_int (- (2 ^ 52))" by simp
    then have "\<lceil>x / ulp\<rceil> \<le> - (2 ^ 52)" by (subst ceiling_le_iff)
    with round_half_even_bounds[of "x / ulp"] show ?thesis by linarith
  qed
  have "(2 ^ 1024 :: real) = 2 powi 1024" by simp
  also have "\<dots> \<le> 2 powi L" using L by (intro power_int_increasing) simp_all
  also have "\<dots> = of_int (2 ^ 52) * ulp" using pw by simp
  also have "\<dots> \<le> of_int \<bar>round_half_even (x / ulp)\<bar> * ulp"
  proof (rule mult_right_mono)
    from r show "(of_int (2 ^ 52) :: real) \<le> of_int \<bar>round_half_even (x / ulp)\<bar>"
      by (subst of_int_le_iff)
    from ulp show "0 \<le> ulp" by simp
  qed
  also have "\<dots> = \<bar>of_int (round_half_even (x / ulp)) * ulp\<bar>"
    using ulp by (simp add: abs_mult)
  finally have big: "2 ^ 1024 \<le> \<bar>of_int (round_half_even (x / ulp)) * ulp\<bar>" .
  from L have "max (- 1022) L = L" by simp
  then show ?thesis
    unfolding binary64_def Let_def L_def[symmetric] using nz big by (simp add: ulp_def)
qed

text \<open>
  Claim C8 as stated fails under the arithmetic of doubles. With the domain
  \<open>[-2^1023, 2^1023]\<close> and the range \<open>[0, 1]\<close>, \<open>domainMax - domainMin\<close> overflows to
  infinity: \<open>scale 0\<close> is \<open>0\<close> and \<open>invert 0\<close> is \<open>domainMin + 0 * Infinity\<close>, which is
  \<open>NaN\<close>. Without any overflow, with the domain \<open>[0, 1]\<close> and the range
  \<open>[2^53, 2^53 + 2]\<close>, where the doubles are two apart, \<open>scale (1/4)\<close> rounds
  \<open>2^53 + 1/2\<close> down to \<open>2^53\<close>, and \<open>invert\<close> gives back \<open>0\<close>: off by a quarter of the
  domain.
\<close>

theorem linear_scale_roundtrip_counterexample:
  "(case linear_domain (Finite (- (2 ^ 1023))) (Finite (2 ^ 1023)) createLinearScale of
      Inl e \<Rightarrow> Inl e
    | Inr s \<Rightarrow> linear_range (Finite 0) (Finite 1) s) =
     Inr \<lparr>domainMin = - (2 ^ 1023), domainMax = 2 ^ 1023, rangeMin = 0, rangeMax = 1\<rparr> \<and>
   representable (- (2 ^ 1023)) \<and> representable (2 ^ 1023) \<and>
   domainMin \<lparr>domainMin = - (2 ^ 1023), domainMax = 2 ^ 1023, rangeMin = 0, rangeMax = 1\<rparr> \<noteq>
     domainMax \<lparr>domainMin = - (2 ^ 1023), domainMax = 2 ^ 1023, rangeMin = 0, rangeMax = 1\<rparr> \<and>
   rangeMin \<lparr>domainMin = - (2 ^ 1023), domainMax = 2 ^ 1023, rangeMin = 0, rangeMax = 1\<rparr> \<noteq>
     rangeMax \<lparr>domainMin = - (2 ^ 1023), domainMax = 2 ^ 1023, rangeMin = 0, rangeMax = 1\<rparr> \<and>
   linear_scale \<lparr>domainMin = - (2 ^ 1023), domainMax = 2 ^ 1023, rangeMin = 0, rangeMax = 1\<rparr>
     (Finite 0) = Finite 0 \<and>
   linear_invert \<lparr>domainMin = - (2 ^ 1023), domainMax = 2 ^ 1023, rangeMin = 0, rangeMax = 1\<rparr>
     (linear_scale \<lparr>domainMin = - (2 ^ 1023), domainMax = 2 ^ 1023, rangeMin = 0, rangeMax = 1\<rparr>
        (Finite 0)) = NaN \<and>
   representable (2 ^ 53) \<and> representable (2 ^ 53 + 2) \<and> representable (1 / 4) \<and>
   linear_scale \<lparr>domainMin = 0, domainMax = 1, rangeMin = 2 ^ 53, rangeMax = 2 ^ 53 + 2\<rparr>
     (Finite (1 / 4)) = Finite (2 ^ 53) \<and>
   linear_invert \<lparr>domainMin = 0, domainMax = 1, rangeMin = 2 ^ 53, rangeMax = 2 ^ 53 + 2\<rparr>
     (linear_scale \<lparr>domainMin = 0, domainMax = 1, rangeMin = 2 ^ 53, rangeMax = 2 ^ 53 + 2\<rparr>
        (Finite (1 / 4))) = Finite 0"
proof -
  have r: "representable (- (2 ^ 1023))" "representable (2 ^ 1023)" "representable (2 ^ 53)"
    "representable (2 ^ 53 + 2)" "representable (1 / 4)"
    using representable_dyadic[of "- 1" 1023 "- (2 ^ 1023)"] representable_pow2[of 1023]
      representable_pow2[of 53] representable_dyadic[of "2 ^ 52 + 1" 1 "2 ^ 53 + 2"]
      representable_pow2[of "- 2"]
    by simp_all
  have a: "binary64 (2 ^ 1023) = Finite (2 ^ 1023)"
    using r(2) by (simp add: representable_def)
  have b: "binary64 (2 ^ 1023 + 2 ^ 1023) = PosInfinity"
    using binary64_overflow[of "2 ^ 1023 + 2 ^ 1023"] by simp
  have c: "binary64 1 = Finite 1" "binary64 2 = Finite 2" "binary64 (1 / 4) = Finite (1 / 4)"
     "binary64 (1 / 2) = Finite (1 / 2)"
    using representable_int[of 1] representable_int[of 2] representable_pow2[of "- 2"]
      representable_pow2[of "- 1"]
    by (simp_all add: representable_def)
  have d: "binary64 (2 ^ 53 + 1 / 2) = Finite (2 ^ 53)"
    using binary64_binade[of 53 "2 ^ 53 + 1 / 2"] by (simp add: Let_def round_half_even_def)
  have z: "binary64 0 = Finite 0" by (simp add: binary64_def)
  have build: "(case linear_domain (Finite (- (2 ^ 1023))) (Finite (2 ^ 1023)) createLinearScale of
      Inl e \<Rightarrow> Inl e
    | Inr s \<Rightarrow> linear_range (Finite 0) (Finite 1) s) =
     Inr \<lparr>domainMin = - (2 ^ 1023), domainMax = 2 ^ 1023, rangeMin = 0, rangeMax = 1\<rparr>"
    by (simp add: linear_domain_def linear_range_def createLinearScale_def)
  have run: "linear_scale \<lparr>domainMin = - (2 ^ 1023), domainMax = 2 ^ 1023, rangeMin = 0, rangeMax = 1\<rparr>
     (Finite 0) = Finite 0 \<and>
   linear_invert \<lparr>domainMin = - (2 ^ 1023), domainMax = 2 ^ 1023, rangeMin = 0, rangeMax = 1\<rparr>
     (Finite 0) = NaN \<and>
   linear_scale \<lparr>domainMin = 0, domainMax = 1, rangeMin = 2 ^ 53, rangeMax = 2 ^ 53 + 2\<rparr>
     (Finite (1 / 4)) = Finite (2 ^ 53) \<and>
   linear_invert \<lparr>domainMin = 0, domainMax = 1, rangeMin = 2 ^ 53, rangeMax = 2 ^ 53 + 2\<rparr>
     (Finite (2 ^ 53)) = Finite 0"
    using a b c d z by (simp add: Let_def)
  have ne: "domainMin \<lparr>domainMin = - (2 ^ 1023), domainMax = 2 ^ 1023, rangeMin = 0, rangeMax = 1\<rparr> \<noteq>
     domainMax \<lparr>domainMin = - (2 ^ 1023), domainMax = 2 ^ 1023, rangeMin = 0, rangeMax = 1\<rparr>"
    "rangeMin \<lparr>domainMin = - (2 ^ 1023), domainMax = 2 ^ 1023, rangeMin = 0, rangeMax = 1\<rparr> \<noteq>
     rangeMax \<lparr>domainMin = - (2 ^ 1023), domainMax = 2 ^ 1023, rangeMin = 0, rangeMax = 1\<rparr>"
    by simp_all
  from build r ne run show ?thesis by (simp only: simp_thms)
qed

text \<open>
  Claim C8, amended. For every finite value \<open>v\<close>, whenever the domain and the range of a
  linear scale are both non-degenerate (\<open>domainMin \<noteq> domainMax\<close> and
  \<open>rangeMin \<noteq> rangeMax\<close>) and the arithmetic of \<open>scale\<close> is exact, that is \<open>v\<close> and the
  exact value of each of its steps (\<open>v - domainMin\<close>, \<open>domainMax - domainMin\<close>, their
  quotient \<open>t\<close>, \<open>rangeMax - rangeMin\<close>, the product and the final sum) are doubles,
  \<open>scale v\<close> is \<open>rangeMin + t * (rangeMax - rangeMin)\<close> and \<open>invert (scale v) = v\<close>,
  exactly. Under rounding or overflow no bound of one unit in the last place times the
  spread holds.
\<close>

theorem linear_scale_roundtrip:
  assumes "domainMin s \<noteq> domainMax s" and "rangeMin s \<noteq> rangeMax s"
    and "representable v"
    and "representable (v - domainMin s)"
    and "representable (domainMax s - domainMin s)"
    and "representable ((v - domainMin s) / (domainMax s - domainMin s))"
    and "representable (rangeMax s - rangeMin s)"
    and "representable ((v - domainMin s) / (domainMax s - domainMin s) * (rangeMax s - rangeMin s))"
    and "representable (rangeMin s + (v - domainMin s) / (domainMax s - domainMin s) * (rangeMax s - rangeMin s))"
  shows "linear_scale s (Finite v) =
      Finite (rangeMin s + (v - domainMin s) / (domainMax s - domainMin s) * (rangeMax s - rangeMin s)) \<and>
    linear_invert s (linear_scale s (Finite v)) = Finite v"
proof -
  let ?D = "domainMax s - domainMin s" and ?R = "rangeMax s - rangeMin s"
  let ?t = "(v - domainMin s) / ?D"
  let ?p = "rangeMin s + ?t * ?R"
  from assms(1,2) have D: "?D \<noteq> 0" and R: "?R \<noteq> 0" by simp_all
  have sc: "linear_scale s (Finite v) = Finite ?p"
    using assms D by (simp add: representable_def Let_def)
  have "?p - rangeMin s = ?t * ?R" by simp
  moreover have "?t * ?R / ?R = ?t" using R by simp
  moreover have "?t * ?D = v - domainMin s" using D by simp
  moreover have "domainMin s + (v - domainMin s) = v" by simp
  ultimately have "linear_invert s (Finite ?p) = Finite v"
    using assms D R by (simp add: representable_def Let_def)
  with sc show ?thesis by simp
qed

text \<open>The round trip at the domain \<open>[2, 10]\<close>, the range \<open>[100, 300]\<close> and \<open>v = 4\<close>.\<close>

theorem linear_scale_roundtrip_witness:
  "domainMin \<lparr>domainMin = 2, domainMax = 10, rangeMin = 100, rangeMax = 300\<rparr> \<noteq>
     domainMax \<lparr>domainMin = 2, domainMax = 10, rangeMin = 100, rangeMax = 300\<rparr> \<and>
   rangeMin \<lparr>domainMin = 2, domainMax = 10, rangeMin = 100, rangeMax = 300\<rparr> \<noteq>
     rangeMax \<lparr>domainMin = 2, domainMax = 10, rangeMin = 100, rangeMax = 300\<rparr> \<and>
   representable 4 \<and> representable (4 - 2) \<and> representable (10 - 2) \<and>
   representable ((4 - 2) / (10 - 2)) \<and> representable (300 - 100) \<and>
   representable ((4 - 2) / (10 - 2) * (300 - 100)) \<and>
   representable (100 + (4 - 2) / (10 - 2) * (300 - 100)) \<and>
   linear_scale \<lparr>domainMin = 2, domainMax = 10, rangeMin = 100, rangeMax = 300\<rparr> (Finite 4) = Finite 150 \<and>
   linear_invert \<lparr>domainMin = 2, domainMax = 10, rangeMin = 100, rangeMax = 300\<rparr> (Finite 150) = Finite 4"
proof -
  let ?s = "\<lparr>domainMin = 2, domainMax = 10, rangeMin = 100, rangeMax = 300\<rparr>"
  have r: "representable 4" "representable 2" "representable 8" "representable (1 / 4)"
    "representable 200" "representable 50" "representable 150"
    using representable_int[of 4] representable_int[of 2] representable_int[of 8]
      representable_pow2[of "- 2"] representable_int[of 200] representable_int[of 50]
      representable_int[of 150]
    by simp_all
  have h: "representable (4 - 2)" "representable (10 - 2)" "representable ((4 - 2) / (10 - 2))"
    "representable (300 - 100)" "representable ((4 - 2) / (10 - 2) * (300 - 100))"
    "representable (100 + (4 - 2) / (10 - 2) * (300 - 100))"
    using r by simp_all
  have d: "domainMin ?s \<noteq> domainMax ?s" and g: "rangeMin ?s \<noteq> rangeMax ?s" by simp_all
  have a1: "representable (4 - domainMin ?s)"
    and a2: "representable (domainMax ?s - domainMin ?s)"
    and a3: "representable ((4 - domainMin ?s) / (domainMax ?s - domainMin ?s))"
    and a4: "representable (rangeMax ?s - rangeMin ?s)"
    and a5: "representable ((4 - domainMin ?s) / (domainMax ?s - domainMin ?s) *
        (rangeMax ?s - rangeMin ?s))"
    and a6: "representable (rangeMin ?s + (4 - domainMin ?s) / (domainMax ?s - domainMin ?s) *
        (rangeMax ?s - rangeMin ?s))"
    using r by simp_all
  have v: "rangeMin ?s + (4 - domainMin ?s) / (domainMax ?s - domainMin ?s) *
        (rangeMax ?s - rangeMin ?s) = 150"
    by simp
  note t = linear_scale_roundtrip[of ?s 4, OF d g r(1) a1 a2 a3 a4 a5 a6]
  from t have sc: "linear_scale ?s (Finite 4) = Finite 150" unfolding v by (rule conjunct1)
  from t have "linear_invert ?s (linear_scale ?s (Finite 4)) = Finite 4" by (rule conjunct2)
  then have iv: "linear_invert ?s (Finite 150) = Finite 4" unfolding sc .
  from d g r(1) h sc iv show ?thesis by blast
qed




section \<open>Properties of the binary point data\<close>

lemma bytes_to_f64_to_bytes: "bytes_to_f64 (f64_to_bytes w) = w"
  unfolding f64_to_bytes_def bytes_to_f64.simps
proof (rule bit_eqI)
  fix n
  assume "possible_bit TYPE(64 word) n"
  then have n: "n < 64" by simp
  then consider "n < 8" | "8 \<le> n \<and> n < 16" | "16 \<le> n \<and> n < 24" | "24 \<le> n \<and> n < 32"
    | "32 \<le> n \<and> n < 40" | "40 \<le> n \<and> n < 48" | "48 \<le> n \<and> n < 56" | "56 \<le> n \<and> n < 64"
    by linarith
  then show "bit (ucast (ucast w :: 8 word) OR push_bit 8 (ucast (ucast (drop_bit 8 w) :: 8 word)) OR
       push_bit 16 (ucast (ucast (drop_bit 16 w) :: 8 word)) OR
       push_bit 24 (ucast (ucast (drop_bit 24 w) :: 8 word)) OR
       push_bit 32 (ucast (ucast (drop_bit 32 w) :: 8 word)) OR
       push_bit 40 (ucast (ucast (drop_bit 40 w) :: 8 word)) OR
       push_bit 48 (ucast (ucast (drop_bit 48 w) :: 8 word)) OR
       push_bit 56 (ucast (ucast (drop_bit 56 w) :: 8 word)) :: f64) n = bit w n"
    by cases (auto simp add: bit_simps)
qed

lemma lanes_of_bytes_of_lanes: "lanes_of_bytes (bytes_of_lanes view) = view"
proof (induction view)
  case Nil
  show ?case by (simp add: bytes_of_lanes_def)
next
  case (Cons w view)
  have "lanes_of_bytes (f64_to_bytes w @ bytes_of_lanes view) =
      bytes_to_f64 (f64_to_bytes w) # lanes_of_bytes (bytes_of_lanes view)"
    by (simp add: f64_to_bytes_def)
  with Cons show ?case by (simp add: bytes_of_lanes_def bytes_to_f64_to_bytes)
qed

lemma length_bytes_of_lanes: "length (bytes_of_lanes view) = 8 * length view"
  by (induction view) (simp_all add: bytes_of_lanes_def f64_to_bytes_def)

lemma length_lanes_of_bytes: "length (lanes_of_bytes bs) = length bs div 8"
  by (induction bs rule: lanes_of_bytes.induct) simp_all

lemma deserialize_xy_loop_eq:
  "i \<le> n \<Longrightarrow> length points = n \<Longrightarrow>
   deserialize_xy_loop view n i off points =
     take i points @
     map (\<lambda>j. Tuple [view_get view (off + 2 * (j - i)), view_get view (off + 2 * (j - i) + 1)]) [i..<n]"
proof (induction view n i off points rule: deserialize_xy_loop.induct)
  case (1 view n i off points)
  show ?case
  proof (cases "i < n")
    case False
    with "1.prems" show ?thesis
      by (subst deserialize_xy_loop.simps) simp
  next
    case True
    let ?v = "Tuple [view_get view off, view_get view (off + 1)]"
    let ?points = "array_set points i ?v"
    from True "1.prems" have set: "?points = points[i := ?v]"
      by (simp add: array_set_def)
    from True "1.prems" have len: "length ?points = n" and le: "i + 1 \<le> n"
      by (simp_all add: array_set_def)
    have "deserialize_xy_loop view n i off points =
        deserialize_xy_loop view n (i + 1) (off + 2) ?points"
      using True by (subst deserialize_xy_loop.simps) simp
    also have "\<dots> = take (i + 1) ?points @
        map (\<lambda>j. Tuple [view_get view (off + 2 + 2 * (j - (i + 1))),
                          view_get view (off + 2 + 2 * (j - (i + 1)) + 1)]) [i + 1..<n]"
      by (rule "1.IH"[OF True le len])
    also have "take (i + 1) ?points = take i points @ [?v]"
      using True "1.prems" by (simp add: array_set_def take_Suc_conv_app_nth)
    also have "map (\<lambda>j. Tuple [view_get view (off + 2 + 2 * (j - (i + 1))),
                          view_get view (off + 2 + 2 * (j - (i + 1)) + 1)]) [i + 1..<n] =
        map (\<lambda>j. Tuple [view_get view (off + 2 * (j - i)), view_get view (off + 2 * (j - i) + 1)])
          [i + 1..<n]"
    proof (rule map_cong[OF refl])
      fix j
      assume "j \<in> set [i + 1..<n]"
      then have "i + 1 \<le> j" by simp
      then have "off + 2 + 2 * (j - (i + 1)) = off + 2 * (j - i)" by arith
      then show "Tuple [view_get view (off + 2 + 2 * (j - (i + 1))),
                        view_get view (off + 2 + 2 * (j - (i + 1)) + 1)] =
                 Tuple [view_get view (off + 2 * (j - i)), view_get view (off + 2 * (j - i) + 1)]"
        by (simp only:)
    qed
    finally show ?thesis
      using True by (simp add: upt_conv_Cons)
  qed
qed

lemma deserialize_ohlc_loop_eq:
  "i \<le> n \<Longrightarrow> length points = n \<Longrightarrow>
   deserialize_ohlc_loop view n i off points =
     take i points @
     map (\<lambda>j. Tuple [view_get view (off + 5 * (j - i)), view_get view (off + 5 * (j - i) + 1),
                      view_get view (off + 5 * (j - i) + 2), view_get view (off + 5 * (j - i) + 3),
                      view_get view (off + 5 * (j - i) + 4)]) [i..<n]"
proof (induction view n i off points rule: deserialize_ohlc_loop.induct)
  case (1 view n i off points)
  show ?case
  proof (cases "i < n")
    case False
    with "1.prems" show ?thesis
      by (subst deserialize_ohlc_loop.simps) simp
  next
    case True
    let ?v = "Tuple [view_get view off, view_get view (off + 1), view_get view (off + 2),
                     view_get view (off + 3), view_get view (off + 4)]"
    let ?points = "array_set points i ?v"
    from True "1.prems" have set: "?points = points[i := ?v]"
      by (simp add: array_set_def)
    from True "1.prems" have len: "length ?points = n" and le: "i + 1 \<le> n"
      by (simp_all add: array_set_def)
    have "deserialize_ohlc_loop view n i off points =
        deserialize_ohlc_loop view n (i + 1) (off + 5) ?points"
      using True by (subst deserialize_ohlc_loop.simps) simp
    also have "\<dots> = take (i + 1) ?points @
        map (\<lambda>j. Tuple [view_get view (off + 5 + 5 * (j - (i + 1))),
                          view_get view (off + 5 + 5 * (j - (i + 1)) + 1),
                          view_get view (off + 5 + 5 * (j - (i + 1)) + 2),
                          view_get view (off + 5 + 5 * (j - (i + 1)) + 3),
                          view_get view (off + 5 + 5 * (j - (i + 1)) + 4)]) [i + 1..<n]"
      by (rule "1.IH"[OF True le len])
    also have "take (i + 1) ?points = take i points @ [?v]"
      using True "1.prems" by (simp add: array_set_def take_Suc_conv_app_nth)
    also have "map (\<lambda>j. Tuple [view_get view (off + 5 + 5 * (j - (i + 1))),
                          view_get view (off + 5 + 5 * (j - (i + 1)) + 1),
                          view_get view (off + 5 + 5 * (j - (i + 1)) + 2),
                          view_get view (off + 5 + 5 * (j - (i + 1)) + 3),
                          view_get view (off + 5 + 5 * (j - (i + 1)) + 4)]) [i + 1..<n] =
        map (\<lambda>j. Tuple [view_get view (off + 5 * (j - i)), view_get view (off + 5 * (j - i) + 1),
                      view_get view (off + 5 * (j - i) + 2), view_get view (off + 5 * (j - i) + 3),
                      view_get view (off + 5 * (j - i) + 4)]) [i + 1..<n]"
    proof (rule map_cong[OF refl])
      fix j
      assume "j \<in> set [i + 1..<n]"
      then have "i + 1 \<le> j" by simp
      then have "off + 5 + 5 * (j - (i + 1)) = off + 5 * (j - i)" by arith
      then show "Tuple [view_get view (off + 5 + 5 * (j - (i + 1))),
                          view_get view (off + 5 + 5 * (j - (i + 1)) + 1),
                          view_get view (off + 5 + 5 * (j - (i + 1)) + 2),
                          view_get view (off + 5 + 5 * (j - (i + 1)) + 3),
                          view_get view (off + 5 + 5 * (j - (i + 1)) + 4)] =
                 Tuple [view_get view (off + 5 * (j - i)), view_get view (off + 5 * (j - i) + 1),
                      view_get view (off + 5 * (j - i) + 2), view_get view (off + 5 * (j - i) + 3),
                      view_get view (off + 5 * (j - i) + 4)]"
        by (simp only:)
    qed
    finally show ?thesis
      using True by (simp add: upt_conv_Cons)
  qed
qed

lemma xy_lanes_cases: "p \<noteq> Hole \<Longrightarrow> \<exists>a b. xy_lanes p = Inr [a, b]"
  by (cases p) simp_all

lemma ohlc_lanes_cases: "p \<noteq> Hole \<Longrightarrow> \<exists>a b c d e. ohlc_lanes p = Inr [a, b, c, d, e]"
  by (cases p) simp_all

lemma length_view_set: "length (view_set view i v) = length view"
  by (simp add: view_set_def)

lemma take_update2:
  "n + 1 < length xs \<Longrightarrow> take (n + 2) (xs[n := a, n + 1 := b]) = take n xs @ [a, b]"
  by (rule nth_equalityI) (auto simp add: nth_append nth_list_update nth_Cons' numeral_2_eq_2)

lemma take_update5:
  "n + 4 < length xs \<Longrightarrow>
   take (n + 5) (xs[n := a, n + 1 := b, n + 2 := c, n + 3 := d, n + 4 := e]) = take n xs @ [a, b, c, d, e]"
  by (rule nth_equalityI) (auto simp add: nth_append nth_list_update nth_Cons')

lemma serialize_xy_loop_eq:
  "\<forall>p \<in> set points. p \<noteq> Hole \<Longrightarrow> i \<le> length points \<Longrightarrow> off = 2 * i \<Longrightarrow>
   length view = 2 * length points \<Longrightarrow>
   serialize_xy_loop points i off view =
     Inr (take off view @ concat (map (\<lambda>p. map to_f64 (projr (xy_lanes p))) (drop i points)))"
proof (induction points i off view rule: serialize_xy_loop.induct)
  case (1 points i off view)
  show ?case
  proof (cases "i < length points")
    case False
    with "1.prems" show ?thesis
      by (subst serialize_xy_loop.simps) simp
  next
    case True
    with "1.prems"(1) have "points ! i \<noteq> Hole" by simp
    then obtain a b where l: "xy_lanes (points ! i) = Inr [a, b]"
      using xy_lanes_cases by blast
    let ?view = "view_set (view_set view off ([a, b] ! 0)) (off + 1) ([a, b] ! 1)"
    from True "1.prems" have inr: "off + 1 < length view" by simp
    then have v: "?view = view[off := to_f64 a, off + 1 := to_f64 b]"
      by (simp add: view_set_def)
    have len: "length ?view = 2 * length points"
      using "1.prems" by (simp add: length_view_set)
    have "serialize_xy_loop points i off view =
        serialize_xy_loop points (i + 1) (off + 2) ?view"
      using True l by (subst serialize_xy_loop.simps) simp
    also have "\<dots> = Inr (take (off + 2) ?view @
        concat (map (\<lambda>p. map to_f64 (projr (xy_lanes p))) (drop (i + 1) points)))"
      using "1.prems" True by (intro "1.IH"[OF True l] len) simp_all
    also have "take (off + 2) ?view = take off view @ [to_f64 a, to_f64 b]"
      unfolding v using inr by (rule take_update2)
    finally show ?thesis
      using True l by (simp add: Cons_nth_drop_Suc[symmetric])
  qed
qed

lemma serialize_ohlc_loop_eq:
  "\<forall>p \<in> set points. p \<noteq> Hole \<Longrightarrow> i \<le> length points \<Longrightarrow> off = 5 * i \<Longrightarrow>
   length view = 5 * length points \<Longrightarrow>
   serialize_ohlc_loop points i off view =
     Inr (take off view @ concat (map (\<lambda>p. map to_f64 (projr (ohlc_lanes p))) (drop i points)))"
proof (induction points i off view rule: serialize_ohlc_loop.induct)
  case (1 points i off view)
  show ?case
  proof (cases "i < length points")
    case False
    with "1.prems" show ?thesis
      by (subst serialize_ohlc_loop.simps) simp
  next
    case True
    with "1.prems"(1) have "points ! i \<noteq> Hole" by simp
    then obtain a b c d e where l: "ohlc_lanes (points ! i) = Inr [a, b, c, d, e]"
      using ohlc_lanes_cases by blast
    let ?l = "[a, b, c, d, e]"
    let ?view = "view_set (view_set (view_set (view_set (view_set view
                  off (?l ! 0)) (off + 1) (?l ! 1)) (off + 2) (?l ! 2))
                  (off + 3) (?l ! 3)) (off + 4) (?l ! 4)"
    from True "1.prems" have inr: "off + 4 < length view" by simp
    then have v: "?view = view[off := to_f64 a, off + 1 := to_f64 b, off + 2 := to_f64 c,
        off + 3 := to_f64 d, off + 4 := to_f64 e]"
      by (simp add: view_set_def)
    have len: "length ?view = 5 * length points"
      using "1.prems" by (simp add: length_view_set)
    have "serialize_ohlc_loop points i off view =
        serialize_ohlc_loop points (i + 1) (off + 5) ?view"
      using True l by (subst serialize_ohlc_loop.simps) simp
    also have "\<dots> = Inr (take (off + 5) ?view @
        concat (map (\<lambda>p. map to_f64 (projr (ohlc_lanes p))) (drop (i + 1) points)))"
      using "1.prems" True by (intro "1.IH"[OF True l] len) simp_all
    also have "take (off + 5) ?view = take off view @ [to_f64 a, to_f64 b, to_f64 c, to_f64 d, to_f64 e]"
      unfolding v using inr by (rule take_update5)
    finally show ?thesis
      using True l by (simp add: Cons_nth_drop_Suc[symmetric])
  qed
qed

lemma charts_emit [simp]: "charts (emit msg c) = charts c"
  by (simp add: emit_def)

lemma charts_emitError [simp]: "charts (emitError cid code e operation c) = charts c"
  by (simp add: emitError_def)


lemma handleAppendData_failure:
  "deserializeDataPoints data pointCount stride = Inl e0 \<Longrightarrow>
   \<exists>e. handleAppendData cid seriesIndex data pointCount stride c =
        emitError cid DATA_ERROR e ''appendData'' c"
  by (auto simp add: handleAppendData_def split: sum.splits)

lemma new_Array_nat: "new_Array (Finite (real n)) = Inr (replicate n Hole)"
  by (simp add: new_Array_def)

lemma deserialize_xy:
  assumes "length buffer = n * 16"
  shows "deserializeDataPoints buffer (Finite (real n)) (Finite 16) =
     Inr (map (\<lambda>j. Tuple [Some (lanes_of_bytes buffer ! (2 * j)),
                         Some (lanes_of_bytes buffer ! (2 * j + 1))]) [0..<n])"
proof -
  let ?view = "lanes_of_bytes buffer"
  from assms have len: "length ?view = 2 * n"
    by (simp add: length_lanes_of_bytes)
  have m8: "length buffer mod 8 = 0" using assms by simp
  have "deserializeDataPoints buffer (Finite (real n)) (Finite 16) =
      Inr (deserialize_xy_loop ?view n 0 0 (replicate n Hole))"
    using assms m8
    by (simp add: deserializeDataPoints_def js_eq_def new_Float64Array_def new_Array_nat)
  also have "deserialize_xy_loop ?view n 0 0 (replicate n Hole) =
      map (\<lambda>j. Tuple [view_get ?view (0 + 2 * (j - 0)), view_get ?view (0 + 2 * (j - 0) + 1)]) [0..<n]"
    by (subst deserialize_xy_loop_eq) simp_all
  also have "\<dots> = map (\<lambda>j. Tuple [Some (?view ! (2 * j)), Some (?view ! (2 * j + 1))]) [0..<n]"
    by (rule map_cong[OF refl]) (simp add: view_get_def len)
  finally show ?thesis .
qed

lemma deserialize_ohlc:
  assumes "length buffer = n * 40"
  shows "deserializeDataPoints buffer (Finite (real n)) (Finite 40) =
     Inr (map (\<lambda>j. Tuple [Some (lanes_of_bytes buffer ! (5 * j)),
                         Some (lanes_of_bytes buffer ! (5 * j + 1)),
                         Some (lanes_of_bytes buffer ! (5 * j + 2)),
                         Some (lanes_of_bytes buffer ! (5 * j + 3)),
                         Some (lanes_of_bytes buffer ! (5 * j + 4))]) [0..<n])"
proof -
  let ?view = "lanes_of_bytes buffer"
  from assms have len: "length ?view = 5 * n"
    by (simp add: length_lanes_of_bytes)
  have m8: "length buffer mod 8 = 0" using assms by simp
  have "deserializeDataPoints buffer (Finite (real n)) (Finite 40) =
      Inr (deserialize_ohlc_loop ?view n 0 0 (replicate n Hole))"
    using assms m8
    by (simp add: deserializeDataPoints_def js_eq_def new_Float64Array_def new_Array_nat)
  also have "deserialize_ohlc_loop ?view n 0 0 (replicate n Hole) =
      map (\<lambda>j. Tuple [view_get ?view (0 + 5 * (j - 0)), view_get ?view (0 + 5 * (j - 0) + 1),
                      view_get ?view (0 + 5 * (j - 0) + 2), view_get ?view (0 + 5 * (j - 0) + 3),
                      view_get ?view (0 + 5 * (j - 0) + 4)]) [0..<n]"
    by (subst deserialize_ohlc_loop_eq) simp_all
  also have "\<dots> = map (\<lambda>j. Tuple [Some (?view ! (5 * j)), Some (?view ! (5 * j + 1)),
       Some (?view ! (5 * j + 2)), Some (?view ! (5 * j + 3)), Some (?view ! (5 * j + 4))]) [0..<n]"
    by (rule map_cong[OF refl]) (simp add: view_get_def len)
  finally show ?thesis .
qed

lemma concat_chunks_nth:
  assumes "\<forall>x \<in> set xs. length (f x) = k"
  shows "j < length xs \<Longrightarrow> r < k \<Longrightarrow> concat (map f xs) ! (k * j + r) = f (xs ! j) ! r"
  using assms
proof (induction xs arbitrary: j)
  case Nil
  then show ?case by simp
next
  case (Cons x xs)
  show ?case
  proof (cases j)
    case 0
    with Cons.prems show ?thesis by (simp add: nth_append)
  next
    case (Suc j')
    with Cons.prems have "k * j + r = length (f x) + (k * j' + r)" by simp
    then have "concat (map f (x # xs)) ! (k * j + r) = concat (map f xs) ! (k * j' + r)"
      by (simp add: nth_append)
    also have "\<dots> = f (xs ! j') ! r"
      using Cons.prems Suc by (intro Cons.IH) simp_all
    finally show ?thesis using Suc by simp
  qed
qed

lemma length_concat_chunks:
  "\<forall>x \<in> set xs. length (f x) = k \<Longrightarrow> length (concat (map f xs)) = k * length xs"
  by (induction xs) simp_all

lemma length_zero_view: "length (lanes_of_bytes (replicate (n * 16) 0)) = 2 * n"
  "length (lanes_of_bytes (replicate (n * 40) 0)) = 5 * n"
  by (simp_all add: length_lanes_of_bytes)

lemma serialize_xy_tuples:
  assumes "xys \<noteq> []"
  shows "serializeDataPoints (map (\<lambda>(x, y). Tuple [Some x, Some y]) xys) =
     Inr (bytes_of_lanes (concat (map (\<lambda>(x, y). [x, y]) xys)), 16)"
proof -
  let ?points = "map (\<lambda>(x, y). Tuple [Some x, Some y]) xys"
  let ?view = "lanes_of_bytes (replicate (length ?points * 16) 0)"
  from assms have first: "isOHLC (?points ! 0) = Inr False"
    by (cases xys) (auto)
  have noHole: "\<forall>p \<in> set ?points. p \<noteq> Hole" by auto
  have "serialize_xy_loop ?points 0 0 ?view =
      Inr (take 0 ?view @ concat (map (\<lambda>p. map to_f64 (projr (xy_lanes p))) (drop 0 ?points)))"
    using noHole by (rule serialize_xy_loop_eq) (simp_all add: length_zero_view)
  also have "concat (map (\<lambda>p. map to_f64 (projr (xy_lanes p))) (drop 0 ?points)) =
      concat (map (\<lambda>(x, y). [x, y]) xys)"
    by (simp add: comp_def case_prod_unfold tuple_get_def to_f64_def)
  finally have "serialize_xy_loop ?points 0 0 ?view = Inr (concat (map (\<lambda>(x, y). [x, y]) xys))"
    by simp
  with assms first show ?thesis
    by (simp add: serializeDataPoints_def Let_def)
qed

lemma serialize_ohlc_tuples:
  assumes "cs \<noteq> []"
  shows "serializeDataPoints (map (\<lambda>(t, o', c, l, h). Tuple [Some t, Some o', Some c, Some l, Some h]) cs) =
     Inr (bytes_of_lanes (concat (map (\<lambda>(t, o', c, l, h). [t, o', c, l, h]) cs)), 40)"
proof -
  let ?points = "map (\<lambda>(t, o', c, l, h). Tuple [Some t, Some o', Some c, Some l, Some h]) cs"
  let ?view = "lanes_of_bytes (replicate (length ?points * 40) 0)"
  from assms have first: "isOHLC (?points ! 0) = Inr True"
    by (cases cs) (auto)
  have noHole: "\<forall>p \<in> set ?points. p \<noteq> Hole" by auto
  have "serialize_ohlc_loop ?points 0 0 ?view =
      Inr (take 0 ?view @ concat (map (\<lambda>p. map to_f64 (projr (ohlc_lanes p))) (drop 0 ?points)))"
    using noHole by (rule serialize_ohlc_loop_eq) (simp_all add: length_zero_view)
  also have "concat (map (\<lambda>p. map to_f64 (projr (ohlc_lanes p))) (drop 0 ?points)) =
      concat (map (\<lambda>(t, o', c, l, h). [t, o', c, l, h]) cs)"
    by (simp add: comp_def case_prod_unfold tuple_get_def to_f64_def)
  finally have "serialize_ohlc_loop ?points 0 0 ?view =
      Inr (concat (map (\<lambda>(t, o', c, l, h). [t, o', c, l, h]) cs))"
    by simp
  with assms first show ?thesis
    by (simp add: serializeDataPoints_def Let_def)
qed

lemma roundtrip_xy:
  assumes "xys \<noteq> []"
  shows "deserializeDataPoints (bytes_of_lanes (concat (map (\<lambda>(x, y). [x, y]) xys)))
           (Finite (real (length xys))) (Finite 16) =
         Inr (map (\<lambda>(x, y). Tuple [Some x, Some y]) xys)"
proof -
  let ?f = "\<lambda>(x, y). [x, y] :: f64 list"
  let ?lanes = "concat (map ?f xys)"
  have k: "\<forall>p \<in> set xys. length (?f p) = 2" by auto
  have len: "length (bytes_of_lanes ?lanes) = length xys * 16"
    by (simp add: length_bytes_of_lanes length_concat_chunks[OF k])
  have "deserializeDataPoints (bytes_of_lanes ?lanes) (Finite (real (length xys))) (Finite 16) =
      Inr (map (\<lambda>j. Tuple [Some (?lanes ! (2 * j)), Some (?lanes ! (2 * j + 1))]) [0..<length xys])"
    using deserialize_xy[OF len] by (simp add: lanes_of_bytes_of_lanes)
  also have "map (\<lambda>j. Tuple [Some (?lanes ! (2 * j)), Some (?lanes ! (2 * j + 1))]) [0..<length xys] =
      map (\<lambda>(x, y). Tuple [Some x, Some y]) xys"
  proof (rule nth_equalityI)
    show "length (map (\<lambda>j. Tuple [Some (?lanes ! (2 * j)), Some (?lanes ! (2 * j + 1))]) [0..<length xys]) =
        length (map (\<lambda>(x, y). Tuple [Some x, Some y]) xys)" by simp
  next
    fix j
    assume "j < length (map (\<lambda>j. Tuple [Some (?lanes ! (2 * j)), Some (?lanes ! (2 * j + 1))]) [0..<length xys])"
    then have j: "j < length xys" by simp
    have "?lanes ! (2 * j + 0) = ?f (xys ! j) ! 0" and "?lanes ! (2 * j + 1) = ?f (xys ! j) ! 1"
      using j by (intro concat_chunks_nth[OF k]; simp)+
    then show "map (\<lambda>j. Tuple [Some (?lanes ! (2 * j)), Some (?lanes ! (2 * j + 1))]) [0..<length xys] ! j =
        map (\<lambda>(x, y). Tuple [Some x, Some y]) xys ! j"
      using j by (cases "xys ! j") simp
  qed
  finally show ?thesis .
qed

lemma roundtrip_ohlc:
  assumes "cs \<noteq> []"
  shows "deserializeDataPoints (bytes_of_lanes (concat (map (\<lambda>(t, o', c, l, h). [t, o', c, l, h]) cs)))
           (Finite (real (length cs))) (Finite 40) =
         Inr (map (\<lambda>(t, o', c, l, h). Tuple [Some t, Some o', Some c, Some l, Some h]) cs)"
proof -
  let ?f = "\<lambda>(t, o', c, l, h). [t, o', c, l, h] :: f64 list"
  let ?g = "\<lambda>(t, o', c, l, h). Tuple [Some t, Some o', Some c, Some l, Some (h :: f64)]"
  let ?lanes = "concat (map ?f cs)"
  let ?h = "\<lambda>j. Tuple [Some (?lanes ! (5 * j)), Some (?lanes ! (5 * j + 1)), Some (?lanes ! (5 * j + 2)),
       Some (?lanes ! (5 * j + 3)), Some (?lanes ! (5 * j + 4))]"
  have k: "\<forall>p \<in> set cs. length (?f p) = 5" by auto
  have len: "length (bytes_of_lanes ?lanes) = length cs * 40"
    by (simp add: length_bytes_of_lanes length_concat_chunks[OF k])
  have "deserializeDataPoints (bytes_of_lanes ?lanes) (Finite (real (length cs))) (Finite 40) =
      Inr (map ?h [0..<length cs])"
    using deserialize_ohlc[OF len] by (simp add: lanes_of_bytes_of_lanes)
  also have "map ?h [0..<length cs] = map ?g cs"
  proof (rule nth_equalityI)
    show "length (map ?h [0..<length cs]) = length (map ?g cs)" by simp
  next
    fix j
    assume "j < length (map ?h [0..<length cs])"
    then have j: "j < length cs" by simp
    have "?lanes ! (5 * j + 0) = ?f (cs ! j) ! 0" and "?lanes ! (5 * j + 1) = ?f (cs ! j) ! 1"
      and "?lanes ! (5 * j + 2) = ?f (cs ! j) ! 2" and "?lanes ! (5 * j + 3) = ?f (cs ! j) ! 3"
      and "?lanes ! (5 * j + 4) = ?f (cs ! j) ! 4"
      using j by (intro concat_chunks_nth[OF k]; simp)+
    then show "map ?h [0..<length cs] ! j = map ?g cs ! j"
      using j by (cases "cs ! j") simp
  qed
  finally show ?thesis .
qed

text \<open>
  Claim C10. For every non-empty array of \<open>[x, y]\<close> data points and every non-empty array
  of 5-tuple OHLC points, deserializing the buffer produced by the proxy-side serializer,
  with the point count and the stride the proxy sends along, returns the tuples of the
  input: both sides use the same lane order, \<open>[x, y]\<close> for stride 16 and
  \<open>[timestamp, open, close, low, high]\<close> for stride 40.
\<close>

theorem serialize_deserialize_roundtrip:
  "(xys \<noteq> [] \<longrightarrow>
      (\<exists>buffer. serializeDataPoints (map (\<lambda>(x, y). Tuple [Some x, Some y]) xys) = Inr (buffer, 16) \<and>
         lanes_of_bytes buffer = concat (map (\<lambda>(x, y). [x, y]) xys) \<and>
         deserializeDataPoints buffer (Finite (real (length xys))) (Finite 16) =
           Inr (map (\<lambda>(x, y). Tuple [Some x, Some y]) xys))) \<and>
   (cs \<noteq> [] \<longrightarrow>
      (\<exists>buffer. serializeDataPoints
           (map (\<lambda>(t, o', c, l, h). Tuple [Some t, Some o', Some c, Some l, Some h]) cs) = Inr (buffer, 40) \<and>
         lanes_of_bytes buffer = concat (map (\<lambda>(t, o', c, l, h). [t, o', c, l, h]) cs) \<and>
         deserializeDataPoints buffer (Finite (real (length cs))) (Finite 40) =
           Inr (map (\<lambda>(t, o', c, l, h). Tuple [Some t, Some o', Some c, Some l, Some h]) cs)))"
proof (intro conjI impI)
  assume ne: "xys \<noteq> []"
  show "\<exists>buffer. serializeDataPoints (map (\<lambda>(x, y). Tuple [Some x, Some y]) xys) = Inr (buffer, 16) \<and>
         lanes_of_bytes buffer = concat (map (\<lambda>(x, y). [x, y]) xys) \<and>
         deserializeDataPoints buffer (Finite (real (length xys))) (Finite 16) =
           Inr (map (\<lambda>(x, y). Tuple [Some x, Some y]) xys)"
    using serialize_xy_tuples[OF ne] roundtrip_xy[OF ne]
    by (intro exI[of _ "bytes_of_lanes (concat (map (\<lambda>(x, y). [x, y]) xys))"])
       (simp add: lanes_of_bytes_of_lanes)
next
  assume ne: "cs \<noteq> []"
  show "\<exists>buffer. serializeDataPoints
           (map (\<lambda>(t, o', c, l, h). Tuple [Some t, Some o', Some c, Some l, Some h]) cs) = Inr (buffer, 40) \<and>
         lanes_of_bytes buffer = concat (map (\<lambda>(t, o', c, l, h). [t, o', c, l, h]) cs) \<and>
         deserializeDataPoints buffer (Finite (real (length cs))) (Finite 40) =
           Inr (map (\<lambda>(t, o', c, l, h). Tuple [Some t, Some o', Some c, Some l, Some h]) cs)"
    using serialize_ohlc_tuples[OF ne] roundtrip_ohlc[OF ne]
    by (intro exI[of _ "bytes_of_lanes (concat (map (\<lambda>(t, o', c, l, h). [t, o', c, l, h]) cs))"])
       (simp add: lanes_of_bytes_of_lanes)
qed

text \<open>Two points and one candle across the bridge.\<close>

theorem serialize_deserialize_roundtrip_witness:
  "[(1, 2), (3, 4)] \<noteq> ([] :: (f64 \<times> f64) list) \<and>
   (\<exists>buffer. serializeDataPoints [Tuple [Some 1, Some 2], Tuple [Some 3, Some 4] ] = Inr (buffer, 16) \<and>
      lanes_of_bytes buffer = [1, 2, 3, 4] \<and>
      deserializeDataPoints buffer (Finite 2) (Finite 16) =
        Inr [Tuple [Some 1, Some 2], Tuple [Some 3, Some 4] ]) \<and>
   [(10, 1, 2, 3, 4)] \<noteq> ([] :: (f64 \<times> f64 \<times> f64 \<times> f64 \<times> f64) list) \<and>
   (\<exists>buffer. serializeDataPoints [Tuple [Some 10, Some 1, Some 2, Some 3, Some 4] ] = Inr (buffer, 40) \<and>
      lanes_of_bytes buffer = [10, 1, 2, 3, 4] \<and>
      deserializeDataPoints buffer (Finite 1) (Finite 40) =
        Inr [Tuple [Some 10, Some 1, Some 2, Some 3, Some 4] ])"
proof -
  have h1: "[(1, 2), (3, 4)] \<noteq> ([] :: (f64 \<times> f64) list)" by simp
  have h2: "[(10, 1, 2, 3, 4)] \<noteq> ([] :: (f64 \<times> f64 \<times> f64 \<times> f64 \<times> f64) list)" by simp
  from serialize_deserialize_roundtrip[of "[(1, 2), (3, 4)]" "[(10, 1, 2, 3, 4)]"] h1 h2
  show ?thesis by simp
qed

section \<open>Properties of the proxy\<close>

text \<open>
  Claim C6. Calling \<open>dispose\<close> twice on a chart is a no-op after the first call: the second
  call returns with the proxy unchanged, throws nothing and posts nothing to the worker;
  any later \<open>appendData\<close> on the disposed chart throws an error with code \<open>DISPOSED\<close>.
\<close>

theorem dispose_twice:
  "proxy_dispose (proxy_dispose p) = proxy_dispose p \<and>
   posted (proxy_dispose (proxy_dispose p)) = posted p \<and>
   proxy_appendData seriesIndex newPoints (proxy_dispose (proxy_dispose p)) =
     Inl (ChartGPUWorkerError DISPOSED ''appendData'' (proxyChartId p))"
  by (simp add: proxy_dispose_def proxy_appendData_def sendMessage_def Let_def)

text \<open>A proxy after \<open>init\<close>, disposed twice, then asked to append one point.\<close>

theorem dispose_twice_witness:
  "\<not> isDisposed example_proxy \<and> isDisposed (proxy_dispose example_proxy) \<and>
   proxy_dispose (proxy_dispose example_proxy) = proxy_dispose example_proxy \<and>
   posted (proxy_dispose (proxy_dispose example_proxy)) = [] \<and>
   proxy_appendData (Finite 0) [Tuple [Some 1, Some 2] ] (proxy_dispose (proxy_dispose example_proxy)) =
     Inl (ChartGPUWorkerError DISPOSED ''appendData'' ''c1'')"
proof -
  have a: "\<not> isDisposed example_proxy" and b: "isDisposed (proxy_dispose example_proxy)"
    by (simp_all add: example_proxy_def proxy_dispose_def sendMessage_def Let_def)
  have c: "posted example_proxy = []" and d: "proxyChartId example_proxy = ''c1''"
    by (simp_all add: example_proxy_def)
  note t = dispose_twice[of example_proxy "Finite 0" "[Tuple [Some 1, Some 2] ]"]
  from t have e1: "proxy_dispose (proxy_dispose example_proxy) = proxy_dispose example_proxy"
    by blast
  from t have "posted (proxy_dispose (proxy_dispose example_proxy)) = posted example_proxy"
    by blast
  with c have e2: "posted (proxy_dispose (proxy_dispose example_proxy)) = []" by simp
  from t have "proxy_appendData (Finite 0) [Tuple [Some 1, Some 2] ]
      (proxy_dispose (proxy_dispose example_proxy)) =
     Inl (ChartGPUWorkerError DISPOSED ''appendData'' (proxyChartId example_proxy))"
    by blast
  with d have e3: "proxy_appendData (Finite 0) [Tuple [Some 1, Some 2] ]
      (proxy_dispose (proxy_dispose example_proxy)) =
     Inl (ChartGPUWorkerError DISPOSED ''appendData'' ''c1'')" by simp
  from a b e1 e2 e3 show ?thesis by blast
qed

text \<open>
  Claim C1 as stated fails: an out-of-range argument is not clamped, the explicit range
  check of the proxy throws \<open>INVALID_ARGUMENT\<close>.
\<close>

theorem setZoomRange_rejects_counterexample:
  "\<not> isDisposed example_proxy \<and>
   proxy_setZoomRange (Finite (- 5)) (Finite 50) example_proxy =
     Inl (ChartGPUWorkerError INVALID_ARGUMENT ''setZoomRange'' ''c1'')"
  by (simp add: proxy_setZoomRange_def example_proxy_def)

text \<open>
  Claim C1, amended. For every call \<open>setZoomRange (start, end)\<close> with finite arguments on a
  proxy that is not disposed: if \<open>0 \<le> start < end \<le> 100\<close> the call throws nothing, makes
  \<open>{start, end}\<close> the zoom range that \<open>getZoomRange\<close> returns and posts one setZoomRange
  message to the worker; otherwise it throws \<open>INVALID_ARGUMENT\<close>: out-of-range arguments
  are rejected, not clamped. So whenever a call with arguments other than \<open>NaN\<close> returns,
  the zoom range of the proxy satisfies \<open>0 \<le> start < end \<le> 100\<close>.
\<close>

theorem setZoomRange_validates:
  assumes "\<not> isDisposed p"
  shows "(0 \<le> s \<and> s < e \<and> e \<le> 100 \<longrightarrow>
            (\<exists>p'. proxy_setZoomRange (Finite s) (Finite e) p = Inr p' \<and>
                  getZoomRange p' = Some (Finite s, Finite e) \<and>
                  posted p' = posted p @ [SetZoomRangeMessage (proxyChartId p) (Finite s) (Finite e)])) \<and>
         (\<not> (0 \<le> s \<and> s < e \<and> e \<le> 100) \<longrightarrow>
            proxy_setZoomRange (Finite s) (Finite e) p =
              Inl (ChartGPUWorkerError INVALID_ARGUMENT ''setZoomRange'' (proxyChartId p))) \<and>
         (\<forall>a b p'. proxy_setZoomRange a b p = Inr p' \<and> a \<noteq> NaN \<and> b \<noteq> NaN \<longrightarrow>
            (\<exists>s' e'. getZoomRange p' = Some (Finite s', Finite e') \<and> 0 \<le> s' \<and> s' < e' \<and> e' \<le> 100))"
proof (intro conjI impI allI)
  assume "0 \<le> s \<and> s < e \<and> e \<le> 100"
  with assms show "\<exists>p'. proxy_setZoomRange (Finite s) (Finite e) p = Inr p' \<and>
                  getZoomRange p' = Some (Finite s, Finite e) \<and>
                  posted p' = posted p @ [SetZoomRangeMessage (proxyChartId p) (Finite s) (Finite e)]"
    by (simp add: proxy_setZoomRange_def js_gt_def js_ge_def js_le_def sendMessage_def getZoomRange_def)
next
  assume "\<not> (0 \<le> s \<and> s < e \<and> e \<le> 100)"
  with assms show "proxy_setZoomRange (Finite s) (Finite e) p =
              Inl (ChartGPUWorkerError INVALID_ARGUMENT ''setZoomRange'' (proxyChartId p))"
    by (auto simp add: proxy_setZoomRange_def js_gt_def js_ge_def js_le_def)
next
  fix a b p'
  assume h: "proxy_setZoomRange a b p = Inr p' \<and> a \<noteq> NaN \<and> b \<noteq> NaN"
  with assms show "\<exists>s' e'. getZoomRange p' = Some (Finite s', Finite e') \<and> 0 \<le> s' \<and> s' < e' \<and> e' \<le> 100"
    by (cases a; cases b)
       (auto simp add: proxy_setZoomRange_def js_gt_def js_ge_def js_le_def sendMessage_def
          getZoomRange_def split: if_splits)
qed

text \<open>The requests \<open>(10, 50)\<close> and \<open>(-5, 50)\<close> on a proxy after \<open>init\<close>.\<close>

theorem setZoomRange_validates_witness:
  "\<not> isDisposed example_proxy \<and> (0 :: real) \<le> 10 \<and> (10 :: real) < 50 \<and> (50 :: real) \<le> 100 \<and>
   (\<exists>p'. proxy_setZoomRange (Finite 10) (Finite 50) example_proxy = Inr p' \<and>
      getZoomRange p' = Some (Finite 10, Finite 50) \<and>
      posted p' = [SetZoomRangeMessage ''c1'' (Finite 10) (Finite 50)]) \<and>
   \<not> ((0 :: real) \<le> - 5 \<and> (- 5 :: real) < 50 \<and> (50 :: real) \<le> 100) \<and>
   proxy_setZoomRange (Finite (- 5)) (Finite 50) example_proxy =
     Inl (ChartGPUWorkerError INVALID_ARGUMENT ''setZoomRange'' ''c1'')"
proof -
  have h: "\<not> isDisposed example_proxy" by (simp add: example_proxy_def)
  have ok: "(0 :: real) \<le> 10 \<and> (10 :: real) < 50 \<and> (50 :: real) \<le> 100" by simp
  have bad: "\<not> ((0 :: real) \<le> - 5 \<and> (- 5 :: real) < 50 \<and> (50 :: real) \<le> 100)" by simp
  from setZoomRange_validates[OF h, of 10 50] ok
  have "\<exists>p'. proxy_setZoomRange (Finite 10) (Finite 50) example_proxy = Inr p' \<and>
      getZoomRange p' = Some (Finite 10, Finite 50) \<and>
      posted p' = posted example_proxy @
        [SetZoomRangeMessage (proxyChartId example_proxy) (Finite 10) (Finite 50)]"
    by blast
  then have a: "\<exists>p'. proxy_setZoomRange (Finite 10) (Finite 50) example_proxy = Inr p' \<and>
      getZoomRange p' = Some (Finite 10, Finite 50) \<and>
      posted p' = [SetZoomRangeMessage ''c1'' (Finite 10) (Finite 50)]"
    by (simp add: example_proxy_def)
  from setZoomRange_validates[OF h, of "- 5" 50] bad
  have "proxy_setZoomRange (Finite (- 5)) (Finite 50) example_proxy =
     Inl (ChartGPUWorkerError INVALID_ARGUMENT ''setZoomRange'' (proxyChartId example_proxy))"
    by blast
  then have b: "proxy_setZoomRange (Finite (- 5)) (Finite 50) example_proxy =
     Inl (ChartGPUWorkerError INVALID_ARGUMENT ''setZoomRange'' ''c1'')"
    by (simp add: example_proxy_def)
  from h ok bad a b show ?thesis by blast
qed

text \<open>
  Two things the amended claim leaves out. The range check lets \<open>NaN\<close> through, since
  every comparison with \<open>NaN\<close> is false; and the worker checks the same request against
  \<open>[0, 1]\<close>, so that it refuses a percent-space range the proxy has accepted and cached.
\<close>

lemma setZoomRange_NaN_cached:
  "proxy_setZoomRange NaN NaN example_proxy =
     Inr (example_proxy\<lparr>cachedZoomRange := Some (NaN, NaN),
            posted := [SetZoomRangeMessage ''c1'' NaN NaN]\<rparr>)"
  by (simp add: proxy_setZoomRange_def js_gt_def js_ge_def js_le_def sendMessage_def example_proxy_def)

lemma handleSetZoomRange_percent_refused:
  "handleSetZoomRange ''c1'' (Finite 10) (Finite 50) example_controller =
     example_controller\<lparr>outbox :=
       [ErrorMessage ''c1'' UNKNOWN (InvalidZoomRangeBounds (Finite 10) (Finite 50)) ''setZoomRange'']\<rparr>"
  by (simp add: handleSetZoomRange_def js_gt_def emitError_def emit_def example_controller_def)

text \<open>
  At the worker a second dispose message for a chart would be answered with an error, the
  chart being gone from the registry; the proxy never sends one, since \<open>dispose\<close> sets
  \<open>isDisposed\<close> before it calls \<open>sendMessage\<close>, which then posts nothing.
\<close>

lemma disposeChart_twice_worker:
  "disposeChart ''c1'' (disposeChart ''c1'' example_controller) =
     example_controller\<lparr>charts := Map.empty,
       outbox := [DisposedMessage ''c1'' [],
                  ErrorMessage ''c1'' UNKNOWN (ChartNotFound ''c1'' ''dispose'') ''dispose'']\<rparr>"
  by (simp add: disposeChart_def example_controller_def example_instance_def emit_def emitError_def)

lemma dispose_never_posted:
  "posted (proxy_dispose p) = posted p"
  by (simp add: proxy_dispose_def sendMessage_def Let_def)

section \<open>Properties of the render scheduler\<close>

lemma calls_fold_run_action: "calls (fold run_action as s) = calls s"
proof (induction as arbitrary: s)
  case Nil
  show ?case by simp
next
  case (Cons a as)
  have "calls (run_action a s) = calls s"
    by (cases a) (simp_all add: scheduler_stop_def scheduler_requestRender_def Let_def split: option.splits)
  with Cons show ?case by simp
qed

lemma calls_requestAnimationFrame: "calls (requestAnimationFrame s) = calls s"
  by (simp add: requestAnimationFrame_def)

text \<open>
  Claim C2 as stated fails: the scheduler is started with a callback that does nothing,
  the first frame clears the dirty flag, nobody calls \<open>requestRender\<close>, and the second frame
  invokes the callback all the same. The frame handler only resets the flag; skipping
  clean frames is, in the words of the source, reserved for a future optimization.
\<close>

theorem frame_without_dirty_mark_counterexample:
  "(case scheduler_start (Some (\<lambda>deltaTime. [])) 0 new_RenderScheduler of
      Inl e \<Rightarrow> False
    | Inr s0 \<Rightarrow>
        let s1 = animationFrame 16 s0; s2 = animationFrame 32 s1 in
        isRunning s1 \<and> \<not> dirty s1 \<and> calls s1 = [16] \<and> calls s2 = [16, 16])"
  by (simp add: scheduler_start_def new_RenderScheduler_def requestAnimationFrame_def animationFrame_def
      frameHandler_def invoke_callback_def Let_def)

text \<open>
  Claim C2, amended. While the render loop is running, every frame invokes the registered
  render callback exactly once, with the time since the previous frame, whether or not a
  dirty mark (\<open>requestRender\<close>) was made since the last invocation: a frame with a clear
  dirty flag is not skipped. A frame that arrives while the scheduler is stopped does
  nothing.
\<close>

theorem frame_always_renders:
  "(isRunning s \<longrightarrow>
      calls (frameHandler currentTime s) = calls s @ [currentTime - lastFrameTime s] \<and>
      calls (frameHandler currentTime (s\<lparr>dirty := False\<rparr>)) =
        calls s @ [currentTime - lastFrameTime s]) \<and>
   (\<not> isRunning s \<longrightarrow> frameHandler currentTime s = s)"
  by (simp add: frameHandler_def invoke_callback_def Let_def calls_fold_run_action
      calls_requestAnimationFrame)

text \<open>A running scheduler with a clear dirty flag, and a stopped one, at the frame of time 32.\<close>

theorem frame_always_renders_witness:
  "isRunning (new_RenderScheduler\<lparr>isRunning := True, lastFrameTime := 16\<rparr>) \<and>
   \<not> dirty (new_RenderScheduler\<lparr>isRunning := True, lastFrameTime := 16\<rparr>) \<and>
   calls (frameHandler 32 (new_RenderScheduler\<lparr>isRunning := True, lastFrameTime := 16\<rparr>)) = [16] \<and>
   \<not> isRunning new_RenderScheduler \<and>
   frameHandler 32 new_RenderScheduler = new_RenderScheduler"
proof -
  let ?s = "new_RenderScheduler\<lparr>isRunning := True, lastFrameTime := 16\<rparr>"
  have h: "isRunning ?s" by simp
  have d: "\<not> dirty ?s" by (simp add: new_RenderScheduler_def)
  have n: "\<not> isRunning new_RenderScheduler" by (simp add: new_RenderScheduler_def)
  from frame_always_renders[of ?s 32] h
  have "calls (frameHandler 32 ?s) = calls ?s @ [32 - lastFrameTime ?s]" by blast
  then have a: "calls (frameHandler 32 ?s) = [16]" by (simp add: new_RenderScheduler_def)
  from frame_always_renders[of new_RenderScheduler 32] n
  have b: "frameHandler 32 new_RenderScheduler = new_RenderScheduler" by blast
  from h d a n b show ?thesis by blast
qed

section \<open>Properties of the worker controller\<close>





lemma getChartInstance_running:
  "charts c cid = Some inst \<Longrightarrow> \<not> disposed (state inst) \<Longrightarrow> \<not> deviceLost (state inst) \<Longrightarrow>
   getChartInstance cid operation c = Inr inst"
  by (simp add: getChartInstance_def)

lemma getChartInstance_lost:
  "charts c cid = Some inst \<Longrightarrow> deviceLost (state inst) \<Longrightarrow>
   getChartInstance cid operation c =
     Inl (if disposed (state inst) then ChartIsDisposed cid operation
          else ChartDeviceIsLost cid operation)"
  by (simp add: getChartInstance_def)

lemma validate_nat [simp]:
  "validateSeriesIndex (Finite (real n)) context = Inr ()"
  "validatePointCount (Finite (real n)) context = Inr ()"
  by (simp_all add: validateSeriesIndex_def validatePointCount_def)

lemma coord_appendData_nat:
  "si < length (store (coordinator inst)) \<Longrightarrow>
   coord_appendData (Finite (real si)) points inst =
     Inr (onRequestRender (inst\<lparr>coordinator := (coordinator inst)
            \<lparr>store := (store (coordinator inst))[si := store (coordinator inst) ! si @ points]\<rparr>\<rparr>))"
  by (simp add: coord_appendData_def Let_def)

lemma deserialize_stride_8:
  "\<exists>e. deserializeDataPoints data pointCount (Finite 8) = Inl e"
  by (simp add: deserializeDataPoints_def Let_def js_eq_def new_Float64Array_def split: sum.splits)

lemma deserialize_stride_20:
  "\<exists>e. deserializeDataPoints data pointCount (Finite 20) = Inl e"
  by (simp add: deserializeDataPoints_def Let_def js_eq_def new_Float64Array_def split: sum.splits)

text \<open>
  Claim C4 as stated fails: a well-formed buffer of two points of stride 8 is rejected by
  the explicit stride check of \<open>deserializeDataPoints\<close>, which accepts 16 and 40 only.
\<close>

theorem appendData_stride_8_counterexample:
  "length (replicate 16 (0 :: 8 word)) = 2 * 8 \<and>
   handleAppendData ''c1'' (Finite 0) (replicate 16 0) (Finite 2) (Finite 8) example_controller =
     example_controller\<lparr>outbox :=
       [ErrorMessage ''c1'' DATA_ERROR (InvalidStride (Finite 8)) ''appendData'']\<rparr>"
  by (simp add: handleAppendData_def validateSeriesIndex_def validatePointCount_def
      getChartInstance_def example_controller_def example_instance_def
      deserializeDataPoints_def js_eq_def new_Float64Array_def emitError_def emit_def)

text \<open>
  Claim C4, amended. For every data buffer with stride 16 (two f64 lanes \<open>[x, y]\<close> per
  point) or stride 40 (five f64 lanes \<open>[timestamp, open, close, low, high]\<close> per candle)
  whose byte length equals \<open>count * stride\<close>, the appendData path of the worker, on a
  running chart and an existing series, accepts the buffer, deserializes it into \<open>count\<close>
  points in lane order, appends them to the target series and requests a render. Strides
  8 and 20 are rejected with a \<open>DATA_ERROR\<close> message.
\<close>

theorem appendData_strides:
  assumes "charts c cid = Some inst"
    and "\<not> disposed (state inst)" and "\<not> deviceLost (state inst)"
    and "si < length (store (coordinator inst))"
  shows
   "(length data = n * 16 \<longrightarrow>
      handleAppendData cid (Finite (real si)) data (Finite (real n)) (Finite 16) c =
        put_chart cid (onRequestRender (inst\<lparr>coordinator := (coordinator inst)
          \<lparr>store := (store (coordinator inst))[si := store (coordinator inst) ! si @
             map (\<lambda>j. Tuple [Some (lanes_of_bytes data ! (2 * j)),
                              Some (lanes_of_bytes data ! (2 * j + 1))]) [0..<n] ]\<rparr>\<rparr>)) c) \<and>
    (length data = n * 40 \<longrightarrow>
      handleAppendData cid (Finite (real si)) data (Finite (real n)) (Finite 40) c =
        put_chart cid (onRequestRender (inst\<lparr>coordinator := (coordinator inst)
          \<lparr>store := (store (coordinator inst))[si := store (coordinator inst) ! si @
             map (\<lambda>j. Tuple [Some (lanes_of_bytes data ! (5 * j)),
                              Some (lanes_of_bytes data ! (5 * j + 1)),
                              Some (lanes_of_bytes data ! (5 * j + 2)),
                              Some (lanes_of_bytes data ! (5 * j + 3)),
                              Some (lanes_of_bytes data ! (5 * j + 4))]) [0..<n] ]\<rparr>\<rparr>)) c) \<and>
    (\<exists>e. handleAppendData cid (Finite (real si)) data (Finite (real n)) (Finite 8) c =
        emitError cid DATA_ERROR e ''appendData'' c) \<and>
    (\<exists>e. handleAppendData cid (Finite (real si)) data (Finite (real n)) (Finite 20) c =
        emitError cid DATA_ERROR e ''appendData'' c)"
proof (intro conjI impI)
  assume l: "length data = n * 16"
  show "handleAppendData cid (Finite (real si)) data (Finite (real n)) (Finite 16) c =
        put_chart cid (onRequestRender (inst\<lparr>coordinator := (coordinator inst)
          \<lparr>store := (store (coordinator inst))[si := store (coordinator inst) ! si @
             map (\<lambda>j. Tuple [Some (lanes_of_bytes data ! (2 * j)),
                              Some (lanes_of_bytes data ! (2 * j + 1))]) [0..<n] ]\<rparr>\<rparr>)) c"
    using assms
    by (simp add: handleAppendData_def getChartInstance_running deserialize_xy[OF l]
        coord_appendData_nat)
next
  assume l: "length data = n * 40"
  show "handleAppendData cid (Finite (real si)) data (Finite (real n)) (Finite 40) c =
        put_chart cid (onRequestRender (inst\<lparr>coordinator := (coordinator inst)
          \<lparr>store := (store (coordinator inst))[si := store (coordinator inst) ! si @
             map (\<lambda>j. Tuple [Some (lanes_of_bytes data ! (5 * j)),
                              Some (lanes_of_bytes data ! (5 * j + 1)),
                              Some (lanes_of_bytes data ! (5 * j + 2)),
                              Some (lanes_of_bytes data ! (5 * j + 3)),
                              Some (lanes_of_bytes data ! (5 * j + 4))]) [0..<n] ]\<rparr>\<rparr>)) c"
    using assms
    by (simp add: handleAppendData_def getChartInstance_running deserialize_ohlc[OF l]
        coord_appendData_nat)
next
  from deserialize_stride_8 obtain e0 where
    "deserializeDataPoints data (Finite (real n)) (Finite 8) = Inl e0" by blast
  then show "\<exists>e. handleAppendData cid (Finite (real si)) data (Finite (real n)) (Finite 8) c =
        emitError cid DATA_ERROR e ''appendData'' c"
    by (rule handleAppendData_failure)
next
  from deserialize_stride_20 obtain e0 where
    "deserializeDataPoints data (Finite (real n)) (Finite 20) = Inl e0" by blast
  then show "\<exists>e. handleAppendData cid (Finite (real si)) data (Finite (real n)) (Finite 20) c =
        emitError cid DATA_ERROR e ''appendData'' c"
    by (rule handleAppendData_failure)
qed

text \<open>
  Zero-filled buffers of two points of stride 16 and of one candle of stride 40 are
  appended to series 0 of the chart \<open>c1\<close>; a buffer announced with stride 8 is refused.
\<close>

theorem appendData_strides_witness:
  "charts example_controller ''c1'' = Some example_instance \<and>
   \<not> disposed (state example_instance) \<and> \<not> deviceLost (state example_instance) \<and>
   0 < length (store (coordinator example_instance)) \<and>
   length (replicate 32 (0 :: 8 word)) = 2 * 16 \<and>
   length (replicate 40 (0 :: 8 word)) = 1 * 40 \<and>
   store (coordinator (the (charts
     (handleAppendData ''c1'' (Finite (real (0 :: nat))) (replicate 32 0) (Finite (real (2 :: nat))) (Finite 16)
        example_controller) ''c1''))) =
     [ [Tuple [Some 0, Some 0], Tuple [Some 0, Some 0] ]] \<and>
   store (coordinator (the (charts
     (handleAppendData ''c1'' (Finite (real (0 :: nat))) (replicate 40 0) (Finite (real (1 :: nat))) (Finite 40)
        example_controller) ''c1''))) =
     [ [Tuple [Some 0, Some 0, Some 0, Some 0, Some 0] ]] \<and>
   (\<exists>e. handleAppendData ''c1'' (Finite (real (0 :: nat))) (replicate 16 0) (Finite (real (2 :: nat))) (Finite 8)
           example_controller =
         emitError ''c1'' DATA_ERROR e ''appendData'' example_controller)"
proof -
  have h1: "charts example_controller ''c1'' = Some example_instance"
    by (simp add: example_controller_def)
  have h2: "\<not> disposed (state example_instance)" and h3: "\<not> deviceLost (state example_instance)"
    and h4: "0 < length (store (coordinator example_instance))"
    by (simp_all add: example_instance_def)
  have l16: "length (replicate 32 (0 :: 8 word)) = 2 * 16"
    and l40: "length (replicate 40 (0 :: 8 word)) = 1 * 40" by simp_all
  note xy = appendData_strides[OF h1 h2 h3 h4, of "replicate 32 0" 2]
  note ohlc = appendData_strides[OF h1 h2 h3 h4, of "replicate 40 0" 1]
  note bad = appendData_strides[OF h1 h2 h3 h4, of "replicate 16 0" 2]
  have lanes32: "lanes_of_bytes (replicate 32 (0 :: 8 word)) = [0, 0, 0, 0]" by code_simp
  have lanes40: "lanes_of_bytes (replicate 40 (0 :: 8 word)) = [0, 0, 0, 0, 0]" by code_simp
  have u2: "[0..<2] = [0, 1]" by code_simp
  from xy l16 have "store (coordinator (the (charts
     (handleAppendData ''c1'' (Finite (real (0 :: nat))) (replicate 32 0) (Finite (real (2 :: nat))) (Finite 16)
        example_controller) ''c1''))) =
     [ [Tuple [Some 0, Some 0], Tuple [Some 0, Some 0] ]]"
    by (simp add: put_chart_def onRequestRender_def example_instance_def lanes32 u2)
  moreover from ohlc l40 have "store (coordinator (the (charts
     (handleAppendData ''c1'' (Finite (real (0 :: nat))) (replicate 40 0) (Finite (real (1 :: nat))) (Finite 40)
        example_controller) ''c1''))) =
     [ [Tuple [Some 0, Some 0, Some 0, Some 0, Some 0] ]]"
    by (simp add: put_chart_def onRequestRender_def example_instance_def lanes40)
  moreover from bad have "\<exists>e. handleAppendData ''c1'' (Finite (real (0 :: nat))) (replicate 16 0)
        (Finite (real (2 :: nat))) (Finite 8) example_controller =
         emitError ''c1'' DATA_ERROR e ''appendData'' example_controller"
    by blast
  ultimately show ?thesis using h1 h2 h3 h4 l16 l40 by blast
qed

lemma handleMessage_lost_chart:
  assumes "charts c cid = Some inst" and "deviceLost (state inst)"
  shows "charts (handleMessage m c) cid = Some inst \<or> charts (handleMessage m c) cid = None"
proof (cases m)
  case (SetOptionMessage cid' options)
  with assms show ?thesis
    by (cases "cid' = cid")
       (auto simp add: handleSetOption_def getChartInstance_def put_chart_def
          split: option.splits sum.splits if_splits)
next
  case (AppendDataMessage cid' seriesIndex data pointCount stride)
  with assms show ?thesis
    by (cases "cid' = cid")
       (auto simp add: handleAppendData_def getChartInstance_def put_chart_def
          split: option.splits sum.splits if_splits)
next
  case (AppendDataBatchMessage cid' items)
  with assms show ?thesis
    by (cases "cid' = cid")
       (auto simp add: handleAppendDataBatch_def getChartInstance_def put_chart_def
          split: option.splits sum.splits if_splits prod.splits)
next
  case (ResizeMsg cid' msg)
  with assms show ?thesis
    by (cases "cid' = cid")
       (auto simp add: handleResize_def getChartInstance_def put_chart_def
          split: option.splits sum.splits if_splits prod.splits)
next
  case (ForwardPointerEventMessage cid' event)
  with assms show ?thesis
    by (cases "cid' = cid")
       (auto simp add: handlePointerEvent_def getChartInstance_def put_chart_def
          split: option.splits sum.splits if_splits)
next
  case (SetZoomRangeMessage cid' start "end")
  with assms show ?thesis
    by (cases "cid' = cid")
       (auto simp add: handleSetZoomRange_def getChartInstance_def put_chart_def
          split: option.splits sum.splits if_splits)
next
  case (SetInteractionXMessage cid' x)
  with assms show ?thesis
    by (cases "cid' = cid")
       (auto simp add: handleSetInteractionX_def getChartInstance_def put_chart_def
          split: option.splits sum.splits if_splits)
next
  case (SetAnimationMessage cid' enabled)
  with assms show ?thesis
    by (cases "cid' = cid")
       (auto simp add: handleSetAnimation_def getChartInstance_def put_chart_def
          split: option.splits sum.splits if_splits)
next
  case (DisposeMessage cid')
  with assms show ?thesis
    by (cases "cid' = cid")
       (auto simp add: disposeChart_def split: option.splits if_splits)
qed

text \<open>The \<open>onDeviceLost\<close> callback sets the flag of the chart and emits one message.\<close>

lemma onDeviceLost_sets_flag:
  "charts c cid = Some inst \<Longrightarrow>
   charts (onDeviceLost cid reason c) cid = Some (inst\<lparr>state := (state inst)\<lparr>deviceLost := True\<rparr>\<rparr>)"
  by (simp add: onDeviceLost_def put_chart_def)

lemma onDeviceLost_example:
  "onDeviceLost ''c1'' ''GPU reset'' example_controller =
     example_lost_controller\<lparr>outbox := [DeviceLostMessage ''c1'' ''unknown'' ''GPU reset'']\<rparr>"
  by (simp add: onDeviceLost_def put_chart_def example_controller_def example_lost_controller_def
      example_instance_def emit_def)

text \<open>
  Claim C3 as stated fails on the error code: once the device of a chart is lost, an
  appendData on it is answered with the code of the appendData handler, \<open>DATA_ERROR\<close>;
  no handler emits \<open>DEVICE_LOST\<close>.
\<close>

theorem deviceLost_error_code_counterexample:
  "deviceLost (state (the (charts example_lost_controller ''c1''))) \<and>
   handleAppendData ''c1'' (Finite 0) [] (Finite 0) (Finite 16) example_lost_controller =
     example_lost_controller\<lparr>outbox :=
       [ErrorMessage ''c1'' DATA_ERROR (ChartDeviceIsLost ''c1'' ''appendData'') ''appendData'']\<rparr> \<and>
   DATA_ERROR \<noteq> DEVICE_LOST"
  by (simp add: handleAppendData_def validateSeriesIndex_def validatePointCount_def
      getChartInstance_def example_lost_controller_def example_instance_def
      emitError_def emit_def)

text \<open>
  Claim C3, amended. After the GPU device of a chart is lost, the lost state is terminal:
  every later message leaves the instance of that chart as it is or removes it (dispose);
  appendData, setOption, resize and forwarded pointer events on that chart perform no
  work and are answered with an error message that carries the code of the handler
  (\<open>DATA_ERROR\<close> for appendData, \<open>UNKNOWN\<close> for setOption and forwardPointerEvent,
  \<open>RENDER_ERROR\<close> for resize); and the render-loop handler only clears \<open>renderPending\<close>, so
  no further frame is rendered.
\<close>

theorem deviceLost_terminal:
  assumes "charts c cid = Some inst" and "deviceLost (state inst)"
  shows
   "(\<exists>e. handleAppendData cid seriesIndex data pointCount stride c =
          emitError cid DATA_ERROR e ''appendData'' c) \<and>
    (\<exists>e. handleSetOption cid options c = emitError cid UNKNOWN e ''setOption'' c) \<and>
    (\<exists>e. handleResize cid msg c = emitError cid RENDER_ERROR e ''resize'' c) \<and>
    (\<exists>e. handlePointerEvent cid event c = emitError cid UNKNOWN e ''forwardPointerEvent'' c) \<and>
    port1_onmessage cid c = put_chart cid (inst\<lparr>state := (state inst)\<lparr>renderPending := False\<rparr>\<rparr>) c \<and>
    frames (coordinator (the (charts (port1_onmessage cid c) cid))) = frames (coordinator inst) \<and>
    (\<forall>m. charts (handleMessage m c) cid = Some inst \<or> charts (handleMessage m c) cid = None)"
proof (intro conjI allI)
  show "\<exists>e. handleAppendData cid seriesIndex data pointCount stride c =
          emitError cid DATA_ERROR e ''appendData'' c"
    using assms by (auto simp add: handleAppendData_def getChartInstance_def split: sum.splits)
  show "\<exists>e. handleSetOption cid options c = emitError cid UNKNOWN e ''setOption'' c"
    using assms by (auto simp add: handleSetOption_def getChartInstance_def)
  show "\<exists>e. handleResize cid msg c = emitError cid RENDER_ERROR e ''resize'' c"
    using assms by (auto simp add: handleResize_def getChartInstance_def)
  show "\<exists>e. handlePointerEvent cid event c = emitError cid UNKNOWN e ''forwardPointerEvent'' c"
    using assms by (auto simp add: handlePointerEvent_def getChartInstance_def)
  show p: "port1_onmessage cid c =
      put_chart cid (inst\<lparr>state := (state inst)\<lparr>renderPending := False\<rparr>\<rparr>) c"
    using assms by (simp add: port1_onmessage_def)
  show "frames (coordinator (the (charts (port1_onmessage cid c) cid))) = frames (coordinator inst)"
    by (simp add: p put_chart_def)
  fix m
  show "charts (handleMessage m c) cid = Some inst \<or> charts (handleMessage m c) cid = None"
    using assms by (rule handleMessage_lost_chart)
qed

text \<open>The chart \<open>c1\<close> after its device was lost: a setOption and a run of the render loop.\<close>

theorem deviceLost_terminal_witness:
  "charts example_lost_controller ''c1'' =
     Some (example_instance\<lparr>state := \<lparr>renderPending = False, disposed = False, deviceLost = True\<rparr>\<rparr>) \<and>
   deviceLost (state (example_instance\<lparr>state := \<lparr>renderPending = False, disposed = False, deviceLost = True\<rparr>\<rparr>)) \<and>
   (\<exists>e. handleSetOption ''c1'' \<lparr>seriesData = [], hasDataZoom = False\<rparr> example_lost_controller =
      emitError ''c1'' UNKNOWN e ''setOption'' example_lost_controller) \<and>
   handleSetOption ''c1'' \<lparr>seriesData = [], hasDataZoom = False\<rparr> example_lost_controller =
     example_lost_controller\<lparr>outbox :=
       [ErrorMessage ''c1'' UNKNOWN (ChartDeviceIsLost ''c1'' ''setOption'') ''setOption'']\<rparr> \<and>
   frames (coordinator (the (charts (port1_onmessage ''c1'' example_lost_controller) ''c1''))) = []"
proof -
  let ?inst = "example_instance\<lparr>state := \<lparr>renderPending = False, disposed = False, deviceLost = True\<rparr>\<rparr>"
  have h1: "charts example_lost_controller ''c1'' = Some ?inst"
    by (simp add: example_lost_controller_def)
  have h2: "deviceLost (state ?inst)" by simp
  note t = deviceLost_terminal[OF h1 h2, of "Finite 0" "[]" "Finite 0" "Finite 16"
      "\<lparr>seriesData = [], hasDataZoom = False\<rparr>"]
  from t have a: "\<exists>e. handleSetOption ''c1'' \<lparr>seriesData = [], hasDataZoom = False\<rparr> example_lost_controller =
      emitError ''c1'' UNKNOWN e ''setOption'' example_lost_controller" by blast
  have b: "handleSetOption ''c1'' \<lparr>seriesData = [], hasDataZoom = False\<rparr> example_lost_controller =
     example_lost_controller\<lparr>outbox :=
       [ErrorMessage ''c1'' UNKNOWN (ChartDeviceIsLost ''c1'' ''setOption'') ''setOption'']\<rparr>"
    by (simp add: handleSetOption_def getChartInstance_def example_lost_controller_def
        example_instance_def emitError_def emit_def)
  from t have "frames (coordinator (the (charts (port1_onmessage ''c1'' example_lost_controller) ''c1''))) =
      frames (coordinator ?inst)" by blast
  then have d: "frames (coordinator (the (charts (port1_onmessage ''c1'' example_lost_controller) ''c1''))) = []"
    by (simp add: example_instance_def)
  from h1 h2 a b d show ?thesis by blast
qed

lemma onRequestRender_effect:
  "\<not> disposed (state inst) \<Longrightarrow>
   state (onRequestRender inst) = (state inst)\<lparr>renderPending := True\<rparr> \<and>
   coordinator (onRequestRender inst) = coordinator inst \<and>
   port1_posted (renderChannel (onRequestRender inst)) =
     port1_posted (renderChannel inst) + (if renderPending (state inst) then 0 else 1) \<and>
   port2_posted (renderChannel (onRequestRender inst)) = port2_posted (renderChannel inst)"
  by (cases "renderPending (state inst)") (simp_all add: onRequestRender_def port1_postMessage_def)

lemma coord_appendData_Inr:
  assumes "coord_appendData seriesIndex points inst = Inr inst'"
  shows "\<exists>st. inst' = onRequestRender (inst\<lparr>coordinator := (coordinator inst)\<lparr>store := st\<rparr>\<rparr>)"
proof (cases seriesIndex)
  case (Finite r)
  define ok where "ok \<longleftrightarrow> isInteger (Finite r) \<and> 0 \<le> r \<and> nat \<lfloor>r\<rfloor> < length (store (coordinator inst))"
  from assms Finite have "(if ok then Inr (onRequestRender (inst\<lparr>coordinator := (coordinator inst)
        \<lparr>store := (store (coordinator inst))[nat \<lfloor>r\<rfloor> := store (coordinator inst) ! nat \<lfloor>r\<rfloor> @ points]\<rparr>\<rparr>))
      else Inl (InvalidSeriesIndexForChart (length (store (coordinator inst))))) = Inr inst'"
    unfolding coord_appendData_def Let_def ok_def by simp
  then show ?thesis by (cases ok) auto
qed (use assms in \<open>simp_all add: coord_appendData_def\<close>)

lemma handleAppendData_cases:
  assumes "charts c cid = Some inst" and "\<not> disposed (state inst)" and "\<not> deviceLost (state inst)"
  shows "(\<exists>e. handleAppendData cid seriesIndex data pointCount stride c =
             emitError cid DATA_ERROR e ''appendData'' c) \<or>
         (\<exists>st. handleAppendData cid seriesIndex data pointCount stride c =
             put_chart cid (onRequestRender (inst\<lparr>coordinator := (coordinator inst)\<lparr>store := st\<rparr>\<rparr>)) c)"
proof -
  have g: "getChartInstance cid ''appendData'' c = Inr inst"
    using assms by (simp add: getChartInstance_def)
  show ?thesis
  proof (cases "validateSeriesIndex seriesIndex ''in appendData''")
    case (Inl e)
    then show ?thesis unfolding handleAppendData_def by (simp; blast?)
  next
    case v1: (Inr u1)
    show ?thesis
    proof (cases "validatePointCount pointCount ''in appendData''")
      case (Inl e)
      with v1 show ?thesis unfolding handleAppendData_def by (simp; blast?)
    next
      case v2: (Inr u2)
      show ?thesis
      proof (cases "deserializeDataPoints data pointCount stride")
        case (Inl e)
        with v1 v2 g show ?thesis unfolding handleAppendData_def by (simp; blast?)
      next
        case d: (Inr points)
        show ?thesis
        proof (cases "coord_appendData seriesIndex points inst")
          case (Inl e)
          with v1 v2 g d show ?thesis unfolding handleAppendData_def by (simp; blast?)
        next
          case (Inr inst')
          from coord_appendData_Inr[OF this] obtain st where
            "inst' = onRequestRender (inst\<lparr>coordinator := (coordinator inst)\<lparr>store := st\<rparr>\<rparr>)"
            by blast
          with v1 v2 g d Inr show ?thesis unfolding handleAppendData_def by (simp; blast?)
        qed
      qed
    qed
  qed
qed

lemma put_chart_same [simp]: "charts (put_chart cid inst c) cid = Some inst"
  by (simp add: put_chart_def)

lemma requested_step:
  assumes "\<not> disposed (state inst)" and "\<not> deviceLost (state inst)"
    and "state inst0 = state inst" and "renderChannel inst0 = renderChannel inst"
    and "frames (coordinator inst0) = frames (coordinator inst)"
  shows "\<not> disposed (state (onRequestRender inst0)) \<and> \<not> deviceLost (state (onRequestRender inst0)) \<and>
      frames (coordinator (onRequestRender inst0)) = frames (coordinator inst) \<and>
      renderPending (state (onRequestRender inst0)) \<and>
      port1_posted (renderChannel (onRequestRender inst0)) = port1_posted (renderChannel inst) +
        (if \<not> renderPending (state inst) then 1 else 0) \<and>
      port2_posted (renderChannel (onRequestRender inst0)) = port2_posted (renderChannel inst)"
proof -
  from assms have "\<not> disposed (state inst0)" by simp
  from onRequestRender_effect[OF this] assms show ?thesis by simp
qed

text \<open>
  One update of a running chart: either it fails and the instance stays as it is, or it
  is applied and the notifier has run, so that \<open>renderPending\<close> is set. No frame is
  rendered and nothing is posted on \<open>port2\<close>.
\<close>

lemma update_step:
  assumes "charts c cid = Some inst" and "\<not> disposed (state inst)" and "\<not> deviceLost (state inst)"
    and "is_update cid m"
  shows "\<exists>inst1. charts (handleMessage m c) cid = Some inst1 \<and>
      \<not> disposed (state inst1) \<and> \<not> deviceLost (state inst1) \<and>
      frames (coordinator inst1) = frames (coordinator inst) \<and>
      (renderPending (state inst) \<longrightarrow> renderPending (state inst1)) \<and>
      port1_posted (renderChannel inst1) = port1_posted (renderChannel inst) +
        (if renderPending (state inst1) \<and> \<not> renderPending (state inst) then 1 else 0) \<and>
      port2_posted (renderChannel inst1) = port2_posted (renderChannel inst) \<and>
      (renderPending (state inst1) \<or> inst1 = inst) \<and>
      ((\<exists>options. m = SetOptionMessage cid options) \<longrightarrow> renderPending (state inst1))"
proof (cases m)
  case (SetOptionMessage cid' options)
  with assms have cid: "cid' = cid" by simp
  let ?inst = "inst\<lparr>coordinator := (coordinator inst)
      \<lparr>coptions := resolveOptions options, store := seriesData (resolveOptions options)\<rparr>\<rparr>"
  have h: "handleMessage m c = put_chart cid (onRequestRender ?inst) c"
    using assms SetOptionMessage cid
    by (simp add: handleSetOption_def getChartInstance_def coord_setOptions_def)
  have "\<not> disposed (state (onRequestRender ?inst)) \<and> \<not> deviceLost (state (onRequestRender ?inst)) \<and>
      frames (coordinator (onRequestRender ?inst)) = frames (coordinator inst) \<and>
      renderPending (state (onRequestRender ?inst)) \<and>
      port1_posted (renderChannel (onRequestRender ?inst)) = port1_posted (renderChannel inst) +
        (if \<not> renderPending (state inst) then 1 else 0) \<and>
      port2_posted (renderChannel (onRequestRender ?inst)) = port2_posted (renderChannel inst)"
    using assms(2,3) by (rule requested_step) simp_all
  then show ?thesis unfolding h
    by (intro exI[of _ "onRequestRender ?inst"]) simp
next
  case (AppendDataMessage cid' seriesIndex data pointCount stride)
  with assms have cid: "cid' = cid" by simp
  from handleAppendData_cases[OF assms(1,2,3), of seriesIndex data pointCount stride]
  show ?thesis
  proof
    assume "\<exists>e. handleAppendData cid seriesIndex data pointCount stride c =
        emitError cid DATA_ERROR e ''appendData'' c"
    then obtain e where "handleMessage m c = emitError cid DATA_ERROR e ''appendData'' c"
      using AppendDataMessage cid by auto
    then show ?thesis using assms AppendDataMessage by (intro exI[of _ inst]) simp
  next
    assume "\<exists>st. handleAppendData cid seriesIndex data pointCount stride c =
        put_chart cid (onRequestRender (inst\<lparr>coordinator := (coordinator inst)\<lparr>store := st\<rparr>\<rparr>)) c"
    then obtain st where h: "handleMessage m c =
        put_chart cid (onRequestRender (inst\<lparr>coordinator := (coordinator inst)\<lparr>store := st\<rparr>\<rparr>)) c"
      using AppendDataMessage cid by auto
    let ?inst = "inst\<lparr>coordinator := (coordinator inst)\<lparr>store := st\<rparr>\<rparr>"
    have "\<not> disposed (state (onRequestRender ?inst)) \<and> \<not> deviceLost (state (onRequestRender ?inst)) \<and>
      frames (coordinator (onRequestRender ?inst)) = frames (coordinator inst) \<and>
      renderPending (state (onRequestRender ?inst)) \<and>
      port1_posted (renderChannel (onRequestRender ?inst)) = port1_posted (renderChannel inst) +
        (if \<not> renderPending (state inst) then 1 else 0) \<and>
      port2_posted (renderChannel (onRequestRender ?inst)) = port2_posted (renderChannel inst)"
      using assms(2,3) by (rule requested_step) simp_all
    then show ?thesis unfolding h using AppendDataMessage
      by (intro exI[of _ "onRequestRender ?inst"]) simp
  qed
qed (use assms in simp_all)

lemma updates_coalesce:
  assumes "charts c cid = Some inst" and "\<not> disposed (state inst)" and "\<not> deviceLost (state inst)"
    and "\<forall>m \<in> set ms. is_update cid m"
  shows "\<exists>inst'. charts (handleMessages ms c) cid = Some inst' \<and>
      \<not> disposed (state inst') \<and> \<not> deviceLost (state inst') \<and>
      frames (coordinator inst') = frames (coordinator inst) \<and>
      (renderPending (state inst) \<longrightarrow> renderPending (state inst')) \<and>
      port1_posted (renderChannel inst') = port1_posted (renderChannel inst) +
        (if renderPending (state inst') \<and> \<not> renderPending (state inst) then 1 else 0) \<and>
      port2_posted (renderChannel inst') = port2_posted (renderChannel inst) \<and>
      (renderPending (state inst') \<or> inst' = inst) \<and>
      ((\<exists>options. SetOptionMessage cid options \<in> set ms) \<longrightarrow> renderPending (state inst'))"
  using assms
proof (induction ms arbitrary: c inst)
  case Nil
  then show ?case by simp
next
  case (Cons m ms)
  from Cons.prems have um: "is_update cid m" and ums: "\<forall>m \<in> set ms. is_update cid m" by simp_all
  from update_step[OF Cons.prems(1,2,3) um] obtain inst1 where
    c1: "charts (handleMessage m c) cid = Some inst1"
    and r1: "\<not> disposed (state inst1)" "\<not> deviceLost (state inst1)"
    and f1: "frames (coordinator inst1) = frames (coordinator inst)"
    and p1: "renderPending (state inst) \<longrightarrow> renderPending (state inst1)"
    and n1: "port1_posted (renderChannel inst1) = port1_posted (renderChannel inst) +
        (if renderPending (state inst1) \<and> \<not> renderPending (state inst) then 1 else 0)"
    and q1: "port2_posted (renderChannel inst1) = port2_posted (renderChannel inst)"
    and a1: "renderPending (state inst1) \<or> inst1 = inst"
    and s1: "(\<exists>options. m = SetOptionMessage cid options) \<longrightarrow> renderPending (state inst1)"
    by blast
  from Cons.IH[OF c1 r1 ums] obtain inst' where
    c2: "charts (handleMessages ms (handleMessage m c)) cid = Some inst'"
    and r2: "\<not> disposed (state inst')" "\<not> deviceLost (state inst')"
    and f2: "frames (coordinator inst') = frames (coordinator inst1)"
    and p2: "renderPending (state inst1) \<longrightarrow> renderPending (state inst')"
    and n2: "port1_posted (renderChannel inst') = port1_posted (renderChannel inst1) +
        (if renderPending (state inst') \<and> \<not> renderPending (state inst1) then 1 else 0)"
    and q2: "port2_posted (renderChannel inst') = port2_posted (renderChannel inst1)"
    and a2: "renderPending (state inst') \<or> inst' = inst1"
    and s2: "(\<exists>options. SetOptionMessage cid options \<in> set ms) \<longrightarrow> renderPending (state inst')"
    by blast
  have n: "port1_posted (renderChannel inst') = port1_posted (renderChannel inst) +
        (if renderPending (state inst') \<and> \<not> renderPending (state inst) then 1 else 0)"
  proof (cases "renderPending (state inst1)")
    case True
    with p2 have "renderPending (state inst')" by simp
    with True n1 n2 show ?thesis by simp
  next
    case False
    with p1 have "\<not> renderPending (state inst)" by blast
    with False n1 n2 show ?thesis by simp
  qed
  have s: "(\<exists>options. SetOptionMessage cid options \<in> set (m # ms)) \<longrightarrow> renderPending (state inst')"
  proof
    assume "\<exists>options. SetOptionMessage cid options \<in> set (m # ms)"
    then obtain options where "SetOptionMessage cid options \<in> set (m # ms)" by blast
    then have "m = SetOptionMessage cid options \<or> SetOptionMessage cid options \<in> set ms" by auto
    then show "renderPending (state inst')"
    proof
      assume "m = SetOptionMessage cid options"
      with s1 have "renderPending (state inst1)" by blast
      with p2 show ?thesis by blast
    next
      assume "SetOptionMessage cid options \<in> set ms"
      with s2 show ?thesis by blast
    qed
  qed
  have c': "charts (handleMessages (m # ms) c) cid = Some inst'" using c2 by simp
  have f: "frames (coordinator inst') = frames (coordinator inst)" using f1 f2 by simp
  have p: "renderPending (state inst) \<longrightarrow> renderPending (state inst')" using p1 p2 by blast
  have q: "port2_posted (renderChannel inst') = port2_posted (renderChannel inst)" using q1 q2 by simp
  have a: "renderPending (state inst') \<or> inst' = inst" using a1 a2 p2 by blast
  from c' r2 f p n q a s show ?case by blast
qed

text \<open>
  A single appendData that is applied, on a chart whose \<open>renderPending\<close> flag is clear, sets
  the flag and posts one pulse on \<open>port1\<close>.
\<close>

lemma appendData_applied_posts_pulse:
  assumes "charts c cid = Some inst" and "\<not> disposed (state inst)" and "\<not> deviceLost (state inst)"
    and "\<not> renderPending (state inst)"
    and "si < length (store (coordinator inst))" and "length data = n * 16"
  shows "\<exists>inst1. charts (handleMessage
             (AppendDataMessage cid (Finite (real si)) data (Finite (real n)) (Finite 16)) c) cid =
           Some inst1 \<and>
      renderPending (state inst1) \<and>
      port1_posted (renderChannel inst1) = port1_posted (renderChannel inst) + 1 \<and>
      port2_posted (renderChannel inst1) = port2_posted (renderChannel inst) \<and>
      frames (coordinator inst1) = frames (coordinator inst)"
proof -
  let ?inst = "inst\<lparr>coordinator := (coordinator inst)
          \<lparr>store := (store (coordinator inst))[si := store (coordinator inst) ! si @
             map (\<lambda>j. Tuple [Some (lanes_of_bytes data ! (2 * j)),
                              Some (lanes_of_bytes data ! (2 * j + 1))]) [0..<n] ]\<rparr>\<rparr>"
  have h: "handleMessage (AppendDataMessage cid (Finite (real si)) data (Finite (real n)) (Finite 16)) c =
      put_chart cid (onRequestRender ?inst) c"
    using assms(1,2,3,5)
    by (simp add: handleAppendData_def getChartInstance_running deserialize_xy[OF assms(6)]
        coord_appendData_nat)
  have "\<not> disposed (state (onRequestRender ?inst)) \<and> \<not> deviceLost (state (onRequestRender ?inst)) \<and>
      frames (coordinator (onRequestRender ?inst)) = frames (coordinator inst) \<and>
      renderPending (state (onRequestRender ?inst)) \<and>
      port1_posted (renderChannel (onRequestRender ?inst)) = port1_posted (renderChannel inst) +
        (if \<not> renderPending (state inst) then 1 else 0) \<and>
      port2_posted (renderChannel (onRequestRender ?inst)) = port2_posted (renderChannel inst)"
    using assms(2,3) by (rule requested_step) simp_all
  with assms(4) show ?thesis unfolding h
    by (intro exI[of _ "onRequestRender ?inst"]) simp
qed

text \<open>What one run of the render-loop handler does for a running chart: one frame.\<close>

lemma tick_renders_once:
  assumes "charts c cid = Some inst" and "\<not> disposed (state inst)" and "\<not> deviceLost (state inst)"
  shows "port1_onmessage cid c =
     put_chart cid (inst\<lparr>state := (state inst)\<lparr>renderPending := False\<rparr>,
        coordinator := (coordinator inst)\<lparr>frames := frames (coordinator inst) @
          [(coptions (coordinator inst), store (coordinator inst))]\<rparr>\<rparr>) c"
  using assms by (simp add: port1_onmessage_def coord_render_def Let_def)

text \<open>With nothing waiting at \<open>port1\<close>, no number of turns of the platform runs the handler.\<close>

lemma port1_deliver_idle:
  assumes "charts c cid = Some inst" and "port2_posted (renderChannel inst) = 0"
  shows "(port1_deliver cid ^^ n) c = c"
proof (induction n)
  case 0
  show ?case by simp
next
  case (Suc n)
  have "port1_deliver cid c = c" using assms by (simp add: port1_deliver_def)
  with Suc show ?case by (simp add: funpow_swap1)
qed

text \<open>
  A resize does not go through the notifier: with \<open>requestRender\<close> set, as the proxy
  always sends it, \<open>handleResize\<close> renders at once and leaves the flag and the channel
  alone. Two back-to-back resize messages give two frames and no pulse.
\<close>

lemma resize_renders_now:
  assumes "charts c cid = Some inst" and "\<not> disposed (state inst)" and "\<not> deviceLost (state inst)"
    and "requestRender msg" and "fst (resize_instance msg inst) = None"
  shows "\<exists>inst1. charts (handleResize cid msg c) cid = Some inst1 \<and>
      frames (coordinator inst1) =
        frames (coordinator inst) @ [(coptions (coordinator inst), store (coordinator inst))] \<and>
      renderChannel inst1 = renderChannel inst \<and> state inst1 = state inst"
proof -
  have g: "getChartInstance cid ''resize'' c = Inr inst"
    using assms by (simp add: getChartInstance_def)
  obtain inst1 where r: "resize_instance msg inst = (None, inst1)"
    using assms(5) by (cases "resize_instance msg inst") auto
  then have h: "handleResize cid msg c = put_chart cid inst1 c"
    using g by (simp add: handleResize_def)
  from r assms(3,4) have
    "frames (coordinator inst1) =
        frames (coordinator inst) @ [(coptions (coordinator inst), store (coordinator inst))] \<and>
      renderChannel inst1 = renderChannel inst \<and> state inst1 = state inst"
    unfolding resize_instance_def Let_def coord_render_def
    by (auto split: if_splits option.splits)
  with h show ?thesis by simp
qed

lemma resize_renders_at_once_example:
  "frames (coordinator (the (charts
     (handleMessages
        [ResizeMsg ''c1'' \<lparr>width = Finite 800, height = Finite 600, devicePixelRatio = Finite 2,
                           requestRender = True\<rparr>,
         ResizeMsg ''c1'' \<lparr>width = Finite 800, height = Finite 600, devicePixelRatio = Finite 2,
                           requestRender = True\<rparr>]
        example_controller) ''c1''))) =
     [(\<lparr>seriesData = [ [] ], hasDataZoom = False\<rparr>, [ [] ]),
      (\<lparr>seriesData = [ [] ], hasDataZoom = False\<rparr>, [ [] ])] \<and>
   port1_posted (renderChannel (the (charts
     (handleMessages
        [ResizeMsg ''c1'' \<lparr>width = Finite 800, height = Finite 600, devicePixelRatio = Finite 2,
                           requestRender = True\<rparr>,
         ResizeMsg ''c1'' \<lparr>width = Finite 800, height = Finite 600, devicePixelRatio = Finite 2,
                           requestRender = True\<rparr>]
        example_controller) ''c1''))) = 0"
  by (simp add: handleResize_def getChartInstance_def resize_instance_def example_instance_def
      example_controller_def put_chart_def
      js_le_def js_eq_def js_min_def js_max_def coord_render_def Let_def)

text \<open>
  Claim C7. The code posts the notifier pulse with \<open>port1.postMessage\<close> and installs the
  render-loop handler as \<open>port1.onmessage\<close>, and a port never receives what is posted on
  it. So for any \<open>k\<close> back-to-back setOption and appendData messages for a running chart
  whose \<open>renderPending\<close> flag is clear and whose channel has nothing waiting at \<open>port1\<close>:
  no frame is rendered while they are applied; at most one pulse is posted, exactly one
  when \<open>renderPending\<close> is set afterwards, which is the case as soon as one update was
  applied (every setOption is; when the flag is clear, the instance is as it was); the
  pulse waits at \<open>port2\<close> and nothing waits at \<open>port1\<close>, so no number of turns of the
  platform runs the handler, no frame is rendered and \<open>renderPending\<close> stays set. The one
  frame the claim promises, from the options and the data left by all \<open>k\<close> updates, is
  what a single run of the handler would render.
\<close>

theorem render_pulse_never_delivered:
  assumes "charts c cid = Some inst"
    and "\<not> disposed (state inst)" and "\<not> deviceLost (state inst)" and "\<not> renderPending (state inst)"
    and "port2_posted (renderChannel inst) = 0"
    and "\<forall>m \<in> set ms. is_update cid m"
  shows "\<exists>inst'. charts (handleMessages ms c) cid = Some inst' \<and>
      frames (coordinator inst') = frames (coordinator inst) \<and>
      port1_posted (renderChannel inst') =
        port1_posted (renderChannel inst) + (if renderPending (state inst') then 1 else 0) \<and>
      port2_posted (renderChannel inst') = 0 \<and>
      (renderPending (state inst') \<or> inst' = inst) \<and>
      ((\<exists>options. SetOptionMessage cid options \<in> set ms) \<longrightarrow> renderPending (state inst')) \<and>
      (\<forall>n. (port1_deliver cid ^^ n) (handleMessages ms c) = handleMessages ms c) \<and>
      (\<exists>inst''. charts (port1_onmessage cid (handleMessages ms c)) cid = Some inst'' \<and>
         frames (coordinator inst'') =
           frames (coordinator inst) @ [(coptions (coordinator inst'), store (coordinator inst'))] \<and>
         \<not> renderPending (state inst''))"
proof -
  from updates_coalesce[OF assms(1,2,3,6)] obtain inst' where
    c': "charts (handleMessages ms c) cid = Some inst'"
    and r: "\<not> disposed (state inst')" "\<not> deviceLost (state inst')"
    and f: "frames (coordinator inst') = frames (coordinator inst)"
    and n: "port1_posted (renderChannel inst') = port1_posted (renderChannel inst) +
        (if renderPending (state inst') \<and> \<not> renderPending (state inst) then 1 else 0)"
    and q: "port2_posted (renderChannel inst') = port2_posted (renderChannel inst)"
    and a: "renderPending (state inst') \<or> inst' = inst"
    and s: "(\<exists>options. SetOptionMessage cid options \<in> set ms) \<longrightarrow> renderPending (state inst')"
    by blast
  let ?inst = "inst'\<lparr>state := (state inst')\<lparr>renderPending := False\<rparr>,
        coordinator := (coordinator inst')\<lparr>frames := frames (coordinator inst') @
          [(coptions (coordinator inst'), store (coordinator inst'))]\<rparr>\<rparr>"
  have t: "port1_onmessage cid (handleMessages ms c) = put_chart cid ?inst (handleMessages ms c)"
    using c' r by (rule tick_renders_once)
  have tick: "\<exists>inst''. charts (port1_onmessage cid (handleMessages ms c)) cid = Some inst'' \<and>
         frames (coordinator inst'') =
           frames (coordinator inst) @ [(coptions (coordinator inst'), store (coordinator inst'))] \<and>
         \<not> renderPending (state inst'')"
    unfolding t using f by (intro exI[of _ ?inst]) simp
  have n': "port1_posted (renderChannel inst') =
        port1_posted (renderChannel inst) + (if renderPending (state inst') then 1 else 0)"
    using n assms(4) by simp
  have q': "port2_posted (renderChannel inst') = 0" using q assms(5) by simp
  have idle: "\<forall>n. (port1_deliver cid ^^ n) (handleMessages ms c) = handleMessages ms c"
    using port1_deliver_idle[OF c' q'] by blast
  from c' f n' q' a s idle tick show ?thesis by blast
qed

text \<open>
  A setOption and an appendData for the running chart \<open>c1\<close>: one pulse is posted, it waits
  at \<open>port2\<close>, and after three turns of the platform there is still no frame and
  \<open>renderPending\<close> is still set.
\<close>

theorem render_pulse_never_delivered_witness:
  "charts example_controller ''c1'' = Some example_instance \<and>
   \<not> disposed (state example_instance) \<and> \<not> deviceLost (state example_instance) \<and>
   \<not> renderPending (state example_instance) \<and>
   port2_posted (renderChannel example_instance) = 0 \<and>
   is_update ''c1'' (SetOptionMessage ''c1'' \<lparr>seriesData = [ [] ], hasDataZoom = False\<rparr>) \<and>
   is_update ''c1'' (AppendDataMessage ''c1'' (Finite 0) (replicate 16 0) (Finite 1) (Finite 16)) \<and>
   (\<exists>inst'. charts ((port1_deliver ''c1'' ^^ 3) (handleMessages
                [SetOptionMessage ''c1'' \<lparr>seriesData = [ [] ], hasDataZoom = False\<rparr>,
                 AppendDataMessage ''c1'' (Finite 0) (replicate 16 0) (Finite 1) (Finite 16)]
                example_controller)) ''c1'' = Some inst' \<and>
      frames (coordinator inst') = [] \<and>
      renderPending (state inst') \<and>
      port1_posted (renderChannel inst') = 1 \<and>
      port2_posted (renderChannel inst') = 0 \<and>
      (\<exists>inst''. charts (port1_onmessage ''c1'' (handleMessages
                [SetOptionMessage ''c1'' \<lparr>seriesData = [ [] ], hasDataZoom = False\<rparr>,
                 AppendDataMessage ''c1'' (Finite 0) (replicate 16 0) (Finite 1) (Finite 16)]
                example_controller)) ''c1'' = Some inst'' \<and>
         length (frames (coordinator inst'')) = 1 \<and>
         \<not> renderPending (state inst'')))"
proof -
  let ?ms = "[SetOptionMessage ''c1'' \<lparr>seriesData = [ [] ], hasDataZoom = False\<rparr>,
              AppendDataMessage ''c1'' (Finite 0) (replicate 16 0) (Finite 1) (Finite 16)]"
  have h1: "charts example_controller ''c1'' = Some example_instance"
    by (simp add: example_controller_def)
  have h2: "\<not> disposed (state example_instance)" and h3: "\<not> deviceLost (state example_instance)"
    and h4: "\<not> renderPending (state example_instance)"
    and h5: "port2_posted (renderChannel example_instance) = 0"
    by (simp_all add: example_instance_def)
  have h6: "\<forall>m \<in> set ?ms. is_update ''c1'' m" by simp
  have u1: "is_update ''c1'' (SetOptionMessage ''c1'' \<lparr>seriesData = [ [] ], hasDataZoom = False\<rparr>)"
    and u2: "is_update ''c1'' (AppendDataMessage ''c1'' (Finite 0) (replicate 16 0) (Finite 1) (Finite 16))"
    by simp_all
  have f0: "frames (coordinator example_instance) = []"
    and p0: "port1_posted (renderChannel example_instance) = 0"
    by (simp_all add: example_instance_def)
  note t = render_pulse_never_delivered[OF h1 h2 h3 h4 h5 h6]
  have so: "\<exists>options. SetOptionMessage ''c1'' options \<in> set ?ms" by auto
  from t so obtain inst' inst'' where
    a: "charts (handleMessages ?ms example_controller) ''c1'' = Some inst'"
    and b: "frames (coordinator inst') = frames (coordinator example_instance)"
    and c: "port1_posted (renderChannel inst') =
        port1_posted (renderChannel example_instance) + (if renderPending (state inst') then 1 else 0)"
    and q: "port2_posted (renderChannel inst') = 0"
    and d: "renderPending (state inst')"
    and i: "\<forall>n. (port1_deliver ''c1'' ^^ n) (handleMessages ?ms example_controller) =
        handleMessages ?ms example_controller"
    and e: "charts (port1_onmessage ''c1'' (handleMessages ?ms example_controller)) ''c1'' = Some inst''"
    and f: "frames (coordinator inst'') = frames (coordinator example_instance) @
        [(coptions (coordinator inst'), store (coordinator inst'))]"
    and g: "\<not> renderPending (state inst'')"
    by blast
  from i have i3: "(port1_deliver ''c1'' ^^ 3) (handleMessages ?ms example_controller) =
        handleMessages ?ms example_controller"
    by (rule allE)
  from a i3 have a3: "charts ((port1_deliver ''c1'' ^^ 3) (handleMessages ?ms example_controller)) ''c1'' =
      Some inst'"
    by simp
  from b f0 have b0: "frames (coordinator inst') = []" by simp
  from c d p0 have c1: "port1_posted (renderChannel inst') = 1" by simp
  from f f0 have f1: "length (frames (coordinator inst'')) = 1" by simp
  from a3 b0 d c1 q e f1 g
  have main: "\<exists>inst'. charts ((port1_deliver ''c1'' ^^ 3) (handleMessages ?ms example_controller)) ''c1'' =
        Some inst' \<and>
      frames (coordinator inst') = [] \<and>
      renderPending (state inst') \<and>
      port1_posted (renderChannel inst') = 1 \<and>
      port2_posted (renderChannel inst') = 0 \<and>
      (\<exists>inst''. charts (port1_onmessage ''c1'' (handleMessages ?ms example_controller)) ''c1'' = Some inst'' \<and>
         length (frames (coordinator inst'')) = 1 \<and>
         \<not> renderPending (state inst''))"
    by (intro exI[of _ inst'] conjI exI[of _ inst'']) simp_all
  from h1 h2 h3 h4 h5 u1 u2 main show ?thesis by blast
qed
end
